theory Spec2Isabelle
  imports Main
begin

section \<open>Python values and built-ins used by \<^verbatim>\<open>app.py\<close>\<close>

text \<open>
  The service is one Flask module, \<^verbatim>\<open>src/app.py\<close>. Its handlers read untyped values
  from HTML forms and JSON bodies and write them into MongoDB documents without any
  validation, so the embedding keeps the values dynamically typed. The JSON values covered
  are \<^verbatim>\<open>null\<close>, integers and strings (booleans, floats, arrays and objects are outside the
  model); form values are always strings. Integers are Python's, without bound; the
  store's own limit on the size of an integer is not modelled. Strings are byte lists;
  the case and whitespace functions below are the ASCII parts of Python's.
\<close>

datatype pyval = PNone | PInt int | PStr string

datatype py_error = ValueError | TypeError | AttributeError

text \<open>Python truthiness: \<^verbatim>\<open>None\<close>, \<^verbatim>\<open>0\<close> and \<^verbatim>\<open>""\<close> are falsy.\<close>

fun truthy :: "pyval \<Rightarrow> bool" where
  "truthy PNone = False"
| "truthy (PInt n) = (n \<noteq> 0)"
| "truthy (PStr s) = (s \<noteq> [])"

text \<open>\<^verbatim>\<open>a or b\<close>\<close>

definition py_or :: "pyval \<Rightarrow> pyval \<Rightarrow> pyval" where
  "py_or a b = (if truthy a then a else b)"

text \<open>\<^verbatim>\<open>d.get(k)\<close> on a dict of values: \<^verbatim>\<open>None\<close> for a missing key.\<close>

definition dict_get :: "(string \<times> pyval) list \<Rightarrow> string \<Rightarrow> pyval" where
  "dict_get d k = (case map_of d k of None \<Rightarrow> PNone | Some v \<Rightarrow> v)"

text \<open>\<^verbatim>\<open>request.form.get(k)\<close>: the first value of the key, a string, or \<^verbatim>\<open>None\<close>.\<close>

definition form_get :: "(string \<times> string) list \<Rightarrow> string \<Rightarrow> pyval" where
  "form_get f k = (case map_of f k of None \<Rightarrow> PNone | Some s \<Rightarrow> PStr s)"

text \<open>\<^verbatim>\<open>d[k] = v\<close> on an insertion-ordered dict: an existing key keeps its place.\<close>

fun dict_set :: "('k \<times> 'v) list \<Rightarrow> 'k \<Rightarrow> 'v \<Rightarrow> ('k \<times> 'v) list" where
  "dict_set [] k v = [(k, v)]"
| "dict_set ((k', v') # d) k v = (if k' = k then (k, v) # d else (k', v') # dict_set d k v)"

text \<open>
  \<^verbatim>\<open>str.isspace\<close> on ASCII: tab, line feed, vertical tab, form feed, carriage return, the
  four separators \<^verbatim>\<open>0x1c\<close> to \<^verbatim>\<open>0x1f\<close>, and space.
\<close>

definition is_space :: "char \<Rightarrow> bool" where
  "is_space c = (c \<in> set [CHR 0x09, CHR 0x0A, CHR 0x0B, CHR 0x0C, CHR 0x0D,
                            CHR 0x1C, CHR 0x1D, CHR 0x1E, CHR 0x1F, CHR '' ''])"

text \<open>\<^verbatim>\<open>s.strip()\<close>\<close>

definition strip :: "string \<Rightarrow> string" where
  "strip s = rev (dropWhile is_space (rev (dropWhile is_space s)))"

text \<open>\<^verbatim>\<open>s.upper()\<close> on ASCII letters; every other byte is kept.\<close>

definition to_upper :: "char \<Rightarrow> char" where
  "to_upper c =
     (case map_of (zip ''abcdefghijklmnopqrstuvwxyz'' ''ABCDEFGHIJKLMNOPQRSTUVWXYZ'') c of
        None \<Rightarrow> c | Some u \<Rightarrow> u)"

definition upper :: "string \<Rightarrow> string" where
  "upper s = map to_upper s"

text \<open>
  \<^verbatim>\<open>s.split(sep)\<close> for a one-character separator: the pieces between the separators, the
  empty string giving one empty piece.
\<close>

fun split :: "char \<Rightarrow> string \<Rightarrow> string list" where
  "split sep [] = [[]]"
| "split sep (c # cs) =
     (if c = sep then [] # split sep cs
      else (case split sep cs of [] \<Rightarrow> [[c]] | p # ps \<Rightarrow> (c # p) # ps))"

text \<open>
  \<^verbatim>\<open>code, url = pair.split("=", 1)\<close> for a pair that contains \<^verbatim>\<open>"="\<close>: the text before the
  first \<^verbatim>\<open>"="\<close> and the text after it.
\<close>

definition split_first :: "char \<Rightarrow> string \<Rightarrow> string \<times> string" where
  "split_first sep s = (takeWhile (\<lambda>c. c \<noteq> sep) s, drop 1 (dropWhile (\<lambda>c. c \<noteq> sep) s))"

definition digit_of :: "char \<Rightarrow> nat option" where
  "digit_of c = map_of (zip ''0123456789'' [0, 1, 2, 3, 4, 5, 6, 7, 8, 9]) c"

text \<open>
  \<^verbatim>\<open>int(s)\<close> for a string: surrounding whitespace is dropped (for \<^verbatim>\<open>int\<close> the six
  characters of C's \<^verbatim>\<open>isspace\<close>, without the separators \<^verbatim>\<open>0x1c\<close> to \<^verbatim>\<open>0x1f\<close>), one sign is
  allowed, then decimal digits, single underscores allowed between digits. Anything else
  raises \<^verbatim>\<open>ValueError\<close>. (The interpreter's limit on the number of digits is not modelled.)
\<close>

definition is_c_space :: "char \<Rightarrow> bool" where
  "is_c_space c = (c \<in> set [CHR 0x09, CHR 0x0A, CHR 0x0B, CHR 0x0C, CHR 0x0D, CHR '' ''])"

fun int_digits :: "nat \<Rightarrow> string \<Rightarrow> nat option" where
  "int_digits acc [] = Some acc"
| "int_digits acc [c] =
     (case digit_of c of None \<Rightarrow> None | Some v \<Rightarrow> Some (10 * acc + v))"
| "int_digits acc (c # d # ds) =
     (if c = CHR ''_''
      then (case digit_of d of None \<Rightarrow> None | Some v \<Rightarrow> int_digits (10 * acc + v) ds)
      else (case digit_of c of None \<Rightarrow> None | Some v \<Rightarrow> int_digits (10 * acc + v) (d # ds)))"

definition int_unsigned :: "string \<Rightarrow> nat option" where
  "int_unsigned s =
     (case s of [] \<Rightarrow> None
      | c # cs \<Rightarrow> (case digit_of c of None \<Rightarrow> None | Some v \<Rightarrow> int_digits v cs))"

definition int_of_str :: "string \<Rightarrow> py_error + int" where
  "int_of_str s =
     (case rev (dropWhile is_c_space (rev (dropWhile is_c_space s))) of
        [] \<Rightarrow> Inl ValueError
      | c # cs \<Rightarrow>
          (if c = CHR ''-'' then
             (case int_unsigned cs of None \<Rightarrow> Inl ValueError | Some n \<Rightarrow> Inr (- int n))
           else if c = CHR ''+'' then
             (case int_unsigned cs of None \<Rightarrow> Inl ValueError | Some n \<Rightarrow> Inr (int n))
           else
             (case int_unsigned (c # cs) of None \<Rightarrow> Inl ValueError | Some n \<Rightarrow> Inr (int n))))"

text \<open>\<^verbatim>\<open>int(v)\<close> on a value: \<^verbatim>\<open>int(None)\<close> raises \<^verbatim>\<open>TypeError\<close>.\<close>

fun py_int :: "pyval \<Rightarrow> py_error + int" where
  "py_int PNone = Inl TypeError"
| "py_int (PInt n) = Inr n"
| "py_int (PStr s) = int_of_str s"


section \<open>\<^verbatim>\<open>datetime\<close>: parsing and comparison\<close>

text \<open>
  A naive \<^verbatim>\<open>datetime\<close>: year, month, day, hour, minute, second, microsecond. Python
  compares two of them field by field in this order.
\<close>

datatype datetime = DateTime nat nat nat nat nat nat nat

fun dt_fields :: "datetime \<Rightarrow> nat list" where
  "dt_fields (DateTime y mo d h mi s us) = [y, mo, d, h, mi, s, us]"

fun lex_gt :: "nat list \<Rightarrow> nat list \<Rightarrow> bool" where
  "lex_gt (x # xs) (y # ys) = (x > y \<or> (x = y \<and> lex_gt xs ys))"
| "lex_gt _ _ = False"

text \<open>\<^verbatim>\<open>a > b\<close> on datetimes\<close>

definition dt_gt :: "datetime \<Rightarrow> datetime \<Rightarrow> bool" where
  "dt_gt a b = lex_gt (dt_fields a) (dt_fields b)"

text \<open>
  \<^verbatim>\<open>datetime.strptime(s, "%Y-%m-%d %H:%M:%S")\<close>. The library turns the format into the
  regular expression
  \<^verbatim>\<open>(\d\d\d\d)-(1[0-2]|0[1-9]|[1-9])-(3[0-1]|[1-2]\d|0[1-9]|[1-9]| [1-9])\s+\<close>
  \<^verbatim>\<open>(2[0-3]|[0-1]\d|\d):([0-5]\d|\d):(6[0-1]|[0-5]\d|\d)\<close>,
  matches it at the start of the string, raises \<^verbatim>\<open>ValueError\<close> when there is no match or
  when text remains after the match, and then builds the datetime, which raises
  \<^verbatim>\<open>ValueError\<close> for year 0, a day the month does not have, or a second above 59.
  Each piece below returns its matches in the order the regular expression tries them.
\<close>

definition digits2 :: "(nat \<Rightarrow> nat \<Rightarrow> bool) \<Rightarrow> string \<Rightarrow> (nat \<times> string) list" where
  "digits2 p s =
     (case s of
        a # b # r \<Rightarrow>
          (case digit_of a of None \<Rightarrow> []
           | Some x \<Rightarrow>
               (case digit_of b of None \<Rightarrow> []
                | Some y \<Rightarrow> if p x y then [(10 * x + y, r)] else []))
      | _ \<Rightarrow> [])"

definition digits1 :: "(nat \<Rightarrow> bool) \<Rightarrow> string \<Rightarrow> (nat \<times> string) list" where
  "digits1 p s =
     (case s of
        a # r \<Rightarrow> (case digit_of a of None \<Rightarrow> [] | Some x \<Rightarrow> if p x then [(x, r)] else [])
      | [] \<Rightarrow> [])"

definition re_Y :: "string \<Rightarrow> (nat \<times> string) list" where
  "re_Y s = [(100 * hi + lo, r2). (hi, r1) \<leftarrow> digits2 (\<lambda>x y. True) s,
                                  (lo, r2) \<leftarrow> digits2 (\<lambda>x y. True) r1]"

definition re_m :: "string \<Rightarrow> (nat \<times> string) list" where
  "re_m s = digits2 (\<lambda>x y. (x = 1 \<and> y \<le> 2) \<or> (x = 0 \<and> 1 \<le> y)) s @ digits1 (\<lambda>x. 1 \<le> x) s"

definition re_d :: "string \<Rightarrow> (nat \<times> string) list" where
  "re_d s =
     digits2 (\<lambda>x y. (x = 3 \<and> y \<le> 1) \<or> x = 1 \<or> x = 2 \<or> (x = 0 \<and> 1 \<le> y)) s
     @ digits1 (\<lambda>x. 1 \<le> x) s
     @ (case s of c # r \<Rightarrow> if c = CHR '' '' then digits1 (\<lambda>x. 1 \<le> x) r else [] | [] \<Rightarrow> [])"

definition re_H :: "string \<Rightarrow> (nat \<times> string) list" where
  "re_H s = digits2 (\<lambda>x y. (x = 2 \<and> y \<le> 3) \<or> x \<le> 1) s @ digits1 (\<lambda>x. True) s"

definition re_M :: "string \<Rightarrow> (nat \<times> string) list" where
  "re_M s = digits2 (\<lambda>x y. x \<le> 5) s @ digits1 (\<lambda>x. True) s"

definition re_S :: "string \<Rightarrow> (nat \<times> string) list" where
  "re_S s = digits2 (\<lambda>x y. (x = 6 \<and> y \<le> 1) \<or> x \<le> 5) s @ digits1 (\<lambda>x. True) s"

definition lit :: "char \<Rightarrow> string \<Rightarrow> string list" where
  "lit c s = (case s of a # r \<Rightarrow> if a = c then [r] else [] | [] \<Rightarrow> [])"

text \<open>\<^verbatim>\<open>\s+\<close>, greedy: the longest run of whitespace first.\<close>

fun re_space :: "string \<Rightarrow> string list" where
  "re_space [] = []"
| "re_space (c # cs) = (if is_space c then re_space cs @ [cs] else [])"

definition format_regex_match ::
  "string \<Rightarrow> (nat \<times> nat \<times> nat \<times> nat \<times> nat \<times> nat \<times> string) list" where
  "format_regex_match s =
     [(y, mo, d, h, mi, sec, r11).
        (y, r1) \<leftarrow> re_Y s, r2 \<leftarrow> lit CHR ''-'' r1,
        (mo, r3) \<leftarrow> re_m r2, r4 \<leftarrow> lit CHR ''-'' r3,
        (d, r5) \<leftarrow> re_d r4, r6 \<leftarrow> re_space r5,
        (h, r7) \<leftarrow> re_H r6, r8 \<leftarrow> lit CHR '':'' r7,
        (mi, r9) \<leftarrow> re_M r8, r10 \<leftarrow> lit CHR '':'' r9,
        (sec, r11) \<leftarrow> re_S r10]"

definition is_leap :: "nat \<Rightarrow> bool" where
  "is_leap y = (y mod 4 = 0 \<and> (y mod 100 \<noteq> 0 \<or> y mod 400 = 0))"

definition days_in_month :: "nat \<Rightarrow> nat \<Rightarrow> nat" where
  "days_in_month y mo =
     (if mo = 2 then (if is_leap y then 29 else 28)
      else if mo = 4 \<or> mo = 6 \<or> mo = 9 \<or> mo = 11 then 30 else 31)"

definition strptime :: "string \<Rightarrow> py_error + datetime" where
  "strptime s =
     (case format_regex_match s of
        [] \<Rightarrow> Inl ValueError
      | (y, mo, d, h, mi, sec, rest) # _ \<Rightarrow>
          if rest \<noteq> [] then Inl ValueError
          else if 1 \<le> y \<and> d \<le> days_in_month y mo \<and> sec \<le> 59
          then Inr (DateTime y mo d h mi sec 0)
          else Inl ValueError)"

text \<open>The same call on a stored value: anything but a string raises \<^verbatim>\<open>TypeError\<close>.\<close>

fun strptime_val :: "pyval \<Rightarrow> py_error + datetime" where
  "strptime_val (PStr s) = strptime s"
| "strptime_val _ = Inl TypeError"


section \<open>Documents, store and requests\<close>

text \<open>
  One document of the \<^verbatim>\<open>urls\<close> collection, as \<^verbatim>\<open>shorten\<close> builds it (lines 123 to 133).
  \<^verbatim>\<open>max_clicks\<close> is always the result of \<^verbatim>\<open>int(...)\<close> or \<^verbatim>\<open>None\<close>; \<^verbatim>\<open>country_redirect\<close> is a
  dict from country code to URL, or \<^verbatim>\<open>None\<close>; the other optional fields hold whatever the
  request carried.
\<close>

record url_entry =
  short_id :: pyval
  long_url :: pyval
  clicks :: int
  password :: pyval
  expiry_date :: pyval
  max_clicks :: "int option"
  mobile_url :: pyval
  desktop_url :: pyval
  country_redirect :: "(string \<times> string) list option"

text \<open>
  The state the handlers share: the \<^verbatim>\<open>urls\<close> collection, in insertion order, and the names
  (short ids) of the files in the \<^verbatim>\<open>qrcodes\<close> directory.
\<close>

record state =
  urls :: "url_entry list"
  qr_files :: "string list"

text \<open>\<^verbatim>\<open>urls.find_one({"short_id": sid})\<close>: the first matching document.\<close>

definition find_one :: "url_entry list \<Rightarrow> pyval \<Rightarrow> url_entry option" where
  "find_one docs sid = find (\<lambda>d. short_id d = sid) docs"

text \<open>\<^verbatim>\<open>urls.update_one({"short_id": sid}, ...)\<close>: changes the first matching document.\<close>

fun update_one :: "url_entry list \<Rightarrow> pyval \<Rightarrow> (url_entry \<Rightarrow> url_entry) \<Rightarrow> url_entry list" where
  "update_one [] sid f = []"
| "update_one (d # ds) sid f = (if short_id d = sid then f d # ds else d # update_one ds sid f)"

datatype http_method = GET | HEAD | POST | PATCH

text \<open>
  What \<^verbatim>\<open>user_agents.parse\<close> reports about the \<^verbatim>\<open>User-Agent\<close> header; the classification
  itself is the library's.
\<close>

record user_agent =
  is_mobile :: bool
  is_pc :: bool

text \<open>
  A request as the handlers read it: \<^verbatim>\<open>request.method\<close>, whether the body is JSON
  (\<^verbatim>\<open>request.is_json\<close>), the JSON object of the body, the form fields, the parsed user
  agent and the \<^verbatim>\<open>X-Country\<close> header (\<open>None\<close> when the header is not sent).
\<close>

record request =
  req_method :: http_method
  is_json :: bool
  json :: "(string \<times> pyval) list"
  form :: "(string \<times> string) list"
  ua :: user_agent
  x_country :: "string option"

text \<open>
  The fields an update sets (\<^verbatim>\<open>update_fields\<close> of \<^verbatim>\<open>update_url\<close>): \<open>None\<close> when the key is
  not in the dict, \<open>Some v\<close> when the key is set to \<open>v\<close>.
\<close>

record update_fields =
  set_password :: "pyval option"
  set_expiry_date :: "pyval option"
  set_max_clicks :: "int option option"
  set_mobile_url :: "pyval option"
  set_desktop_url :: "pyval option"
  set_country_redirect :: "(string \<times> string) list option option"

text \<open>The JSON object \<^verbatim>\<open>stats\<close> returns (lines 214 to 224), without its \<^verbatim>\<open>short_url\<close>.\<close>

record stats_view =
  sv_long_url :: pyval
  sv_clicks :: int
  sv_expiry_date :: pyval
  sv_max_clicks :: "int option"
  sv_password_protected :: bool
  sv_mobile_url :: pyval
  sv_desktop_url :: pyval
  sv_country_redirect :: "(string \<times> string) list option"

text \<open>
  The responses of the handlers, by kind; the rendering of the bodies is left out.
  \<open>Created sid\<close> stands for both forms of the creation response, which carry
  \<^verbatim>\<open>BASE_URL + short_id\<close>; an exception no handler catches becomes Flask's 500 response.
\<close>

datatype response =
    HomePage
  | ShortenForm
  | Created string
  | ErrorJson nat string
  | MessageJson nat string
  | ErrorHtml nat string
  | PasswordForm
  | Redirect pyval
  | QrImage string
  | StatsJson stats_view
  | Updated update_fields
  | MethodNotAllowed
  | InternalServerError py_error

fun status :: "response \<Rightarrow> nat" where
  "status HomePage = 200"
| "status ShortenForm = 200"
| "status (Created sid) = 200"
| "status (ErrorJson code msg) = code"
| "status (MessageJson code msg) = code"
| "status (ErrorHtml code msg) = code"
| "status PasswordForm = 200"
| "status (Redirect target) = 302"
| "status (QrImage sid) = 200"
| "status (StatsJson d) = 200"
| "status (Updated uf) = 200"
| "status MethodNotAllowed = 405"
| "status (InternalServerError e) = 500"

section \<open>Helpers (lines 26 to 47)\<close>

text \<open>
  \<^verbatim>\<open>is_expired(url_data)\<close>, with \<^verbatim>\<open>datetime.now()\<close> as the argument \<open>now\<close>. The result is
  \<open>Inl\<close> when \<^verbatim>\<open>strptime\<close> raises.
\<close>

definition is_expired :: "datetime \<Rightarrow> url_entry \<Rightarrow> py_error + bool" where
  "is_expired now url_data =
     (let expiry = expiry_date url_data;
          quota = (case max_clicks url_data of
                     None \<Rightarrow> False
                   | Some n \<Rightarrow> n \<noteq> 0 \<and> clicks url_data \<ge> n)
      in if truthy expiry then
           (case strptime_val expiry of
              Inl e \<Rightarrow> Inl e
            | Inr expiry_dt \<Rightarrow> if dt_gt now expiry_dt then Inr True else Inr quota)
         else Inr quota)"

text \<open>\<^verbatim>\<open>get_country_redirect(url_data, country_code)\<close>\<close>

definition get_country_redirect :: "url_entry \<Rightarrow> string \<Rightarrow> pyval" where
  "get_country_redirect url_data country_code =
     (case country_redirect url_data of
        None \<Rightarrow> PNone
      | Some country_data \<Rightarrow>
          if country_data \<noteq> [] \<and> country_code \<in> fst ` set country_data
          then (case map_of country_data country_code of None \<Rightarrow> PNone | Some url \<Rightarrow> PStr url)
          else PNone)"

text \<open>
  The parsing of the \<^verbatim>\<open>country_redirect\<close> string, which \<^verbatim>\<open>shorten\<close> (lines 116 to 120) and
  \<^verbatim>\<open>update_url\<close> (lines 251 to 255) both contain: the loop over the pieces of
  \<^verbatim>\<open>split(";")\<close>, then the call on a request value, where \<^verbatim>\<open>.split\<close> on anything but a
  string raises \<^verbatim>\<open>AttributeError\<close>.
\<close>

fun country_pairs ::
  "string list \<Rightarrow> (string \<times> string) list \<Rightarrow> (string \<times> string) list" where
  "country_pairs [] country_dict = country_dict"
| "country_pairs (pair # pairs) country_dict =
     (if CHR ''='' \<in> set pair
      then (case split_first CHR ''='' pair of
              (code, url) \<Rightarrow>
                country_pairs pairs (dict_set country_dict (upper (strip code)) (strip url)))
      else country_pairs pairs country_dict)"

fun parse_country_redirect :: "pyval \<Rightarrow> py_error + (string \<times> string) list" where
  "parse_country_redirect (PStr s) = Inr (country_pairs (split CHR '';'' s) [])"
| "parse_country_redirect _ = Inl AttributeError"


section \<open>Creating a short URL (\<^verbatim>\<open>shorten\<close>, lines 60 to 153)\<close>

text \<open>A field of the request body: from the JSON object or from the form (lines 80 to 98).\<close>

definition request_field :: "request \<Rightarrow> string \<Rightarrow> pyval" where
  "request_field req k = (if is_json req then dict_get (json req) k else form_get (form req) k)"

text \<open>
  The loop of lines 109 to 111. \<open>candidates\<close> are the successive results of
  \<^verbatim>\<open>generate_short_id()\<close>; the loop returns the first one that is not a stored short id.
  \<open>None\<close>: every candidate given is taken and the loop is still running.
\<close>

fun fresh_short_id :: "url_entry list \<Rightarrow> string list \<Rightarrow> string option" where
  "fresh_short_id docs [] = None"
| "fresh_short_id docs (c # cs) =
     (if find_one docs (PStr c) = None then Some c else fresh_short_id docs cs)"

datatype allocation = Taken | Allocated pyval

text \<open>Lines 104 to 111: a custom id, unless taken, else a generated one.\<close>

definition allocate :: "url_entry list \<Rightarrow> pyval \<Rightarrow> string list \<Rightarrow> allocation option" where
  "allocate docs custom_id candidates =
     (if truthy custom_id then
        (if find_one docs custom_id \<noteq> None then Some Taken else Some (Allocated custom_id))
      else
        (case fresh_short_id docs candidates of
           None \<Rightarrow> None
         | Some sid \<Rightarrow> Some (Allocated (PStr sid))))"

text \<open>
  Lines 114 to 133: the country dict and the new document. \<^verbatim>\<open>.split\<close> and \<^verbatim>\<open>int\<close> may
  raise, in this order.
\<close>

definition new_entry :: "pyval \<Rightarrow> request \<Rightarrow> py_error + url_entry" where
  "new_entry sid req =
     (case (if truthy (request_field req ''country_redirect'')
            then (case parse_country_redirect (request_field req ''country_redirect'') of
                    Inl e \<Rightarrow> Inl e
                  | Inr country_dict \<Rightarrow> Inr (Some country_dict))
            else Inr None) of
        Inl e \<Rightarrow> Inl e
      | Inr country_dict \<Rightarrow>
          (case (if truthy (request_field req ''max_clicks'')
                 then (case py_int (request_field req ''max_clicks'') of
                         Inl e \<Rightarrow> Inl e
                       | Inr n \<Rightarrow> Inr (Some n))
                 else Inr None) of
             Inl e \<Rightarrow> Inl e
           | Inr max_clicks_int \<Rightarrow>
               Inr \<lparr> short_id = sid,
                     long_url = request_field req ''long_url'',
                     clicks = 0,
                     password = py_or (request_field req ''password'') PNone,
                     expiry_date = py_or (request_field req ''expiry_date'') PNone,
                     max_clicks = max_clicks_int,
                     mobile_url = py_or (request_field req ''mobile_url'') PNone,
                     desktop_url = py_or (request_field req ''desktop_url'') PNone,
                     country_redirect = country_dict \<rparr>))"

text \<open>
  The handler. The route accepts \<^verbatim>\<open>GET\<close> (with \<^verbatim>\<open>HEAD\<close>) and \<^verbatim>\<open>POST\<close>; every method but
  \<^verbatim>\<open>GET\<close> takes the creation path. After the insert, \<^verbatim>\<open>BASE_URL + short_id\<close> (with the
  string \<^verbatim>\<open>BASE_URL\<close> of \<^verbatim>\<open>config.py\<close>) raises \<^verbatim>\<open>TypeError\<close> for a short id that is not a
  string, before the QR file is written.
  \<open>None\<close>: the generation loop has not returned.
\<close>

definition shorten :: "string list \<Rightarrow> request \<Rightarrow> state \<Rightarrow> (response \<times> state) option" where
  "shorten candidates req st =
     (if req_method req = PATCH then Some (MethodNotAllowed, st)
      else if req_method req = GET then Some (ShortenForm, st)
      else if \<not> truthy (request_field req ''long_url'')
      then Some (ErrorJson 400 ''Missing URL'', st)
      else
        (case allocate (urls st) (request_field req ''custom_id'') candidates of
           None \<Rightarrow> None
         | Some Taken \<Rightarrow> Some (ErrorJson 400 ''Custom ID already taken'', st)
         | Some (Allocated sid) \<Rightarrow>
             (case new_entry sid req of
                Inl e \<Rightarrow> Some (InternalServerError e, st)
              | Inr url_entry \<Rightarrow>
                  (case sid of
                     PStr s \<Rightarrow>
                       Some (Created s,
                             st\<lparr>urls := urls st @ [url_entry], qr_files := s # qr_files st\<rparr>)
                   | _ \<Rightarrow>
                       Some (InternalServerError TypeError,
                             st\<lparr>urls := urls st @ [url_entry]\<rparr>)))))"

section \<open>Following a short URL (\<^verbatim>\<open>redirect_short_url\<close>, lines 156 to 199)\<close>

datatype gate = Allow | PasswordRequired | Denied

text \<open>Line 169: the submitted password, from the form or else from the JSON body.\<close>

definition input_pwd :: "request \<Rightarrow> pyval" where
  "input_pwd req =
     py_or (form_get (form req) ''password'')
           (if is_json req then dict_get (json req) ''password'' else PNone)"

text \<open>Lines 167 to 179: the password check.\<close>

definition password_gate :: "url_entry \<Rightarrow> request \<Rightarrow> gate" where
  "password_gate url_data req =
     (if truthy (password url_data) then
        (if req_method req = POST then
           (if input_pwd req \<noteq> password url_data then Denied else Allow)
         else PasswordRequired)
      else Allow)"

text \<open>
  Lines 182 to 195: the device-based target (lines 184 to 189), the country code of the
  request (line 192, \<^verbatim>\<open>""\<close> when the header is not sent), and the country-based target
  over the device-based one (lines 193 to 195).
\<close>

definition country_code :: "request \<Rightarrow> string" where
  "country_code req = upper (case x_country req of None \<Rightarrow> [] | Some c \<Rightarrow> c)"

definition device_url :: "url_entry \<Rightarrow> request \<Rightarrow> pyval" where
  "device_url url_data req =
     (if is_mobile (ua req) \<and> truthy (mobile_url url_data) then mobile_url url_data
      else if is_pc (ua req) \<and> truthy (desktop_url url_data) then desktop_url url_data
      else long_url url_data)"

definition target_url :: "url_entry \<Rightarrow> request \<Rightarrow> pyval" where
  "target_url url_data req =
     (let country_redirect_url = get_country_redirect url_data (country_code req)
      in if truthy country_redirect_url then country_redirect_url
         else device_url url_data req)"

text \<open>
  The handler, with \<^verbatim>\<open>datetime.now()\<close> as \<open>now\<close>. The route accepts \<^verbatim>\<open>GET\<close> (with
  \<^verbatim>\<open>HEAD\<close>) and \<^verbatim>\<open>POST\<close>. \<open>Redirect t\<close> is \<^verbatim>\<open>redirect(t)\<close>, returned after the increment.
  The two library calls of the handler, \<^verbatim>\<open>user_agents.parse\<close> and \<^verbatim>\<open>redirect\<close>, are taken
  to return.
\<close>

definition redirect_short_url :: "datetime \<Rightarrow> string \<Rightarrow> request \<Rightarrow> state \<Rightarrow> response \<times> state" where
  "redirect_short_url now sid req st =
     (if req_method req = PATCH then (MethodNotAllowed, st)
      else
        (case find_one (urls st) (PStr sid) of
           None \<Rightarrow> (ErrorHtml 404 ''URL not found'', st)
         | Some url_data \<Rightarrow>
             (case is_expired now url_data of
                Inl e \<Rightarrow> (InternalServerError e, st)
              | Inr True \<Rightarrow> (ErrorHtml 403 ''Link expired or max clicks reached'', st)
              | Inr False \<Rightarrow>
                  (case password_gate url_data req of
                     PasswordRequired \<Rightarrow> (PasswordForm, st)
                   | Denied \<Rightarrow> (ErrorHtml 403 ''Incorrect password'', st)
                   | Allow \<Rightarrow>
                       (Redirect (target_url url_data req),
                        st\<lparr>urls := update_one (urls st) (PStr sid)
                                      (\<lambda>d. d\<lparr>clicks := clicks d + 1\<rparr>)\<rparr>)))))"

section \<open>The read-only handlers (lines 52 to 57 and 202 to 225)\<close>

definition home :: "request \<Rightarrow> state \<Rightarrow> response \<times> state" where
  "home req st = (if req_method req = GET \<or> req_method req = HEAD then (HomePage, st)
                  else (MethodNotAllowed, st))"

definition get_qr :: "string \<Rightarrow> request \<Rightarrow> state \<Rightarrow> response \<times> state" where
  "get_qr sid req st =
     (if req_method req \<noteq> GET \<and> req_method req \<noteq> HEAD then (MethodNotAllowed, st)
      else if sid \<in> set (qr_files st) then (QrImage sid, st)
      else (ErrorHtml 404 ''QR code not found'', st))"

definition stats :: "string \<Rightarrow> request \<Rightarrow> state \<Rightarrow> response \<times> state" where
  "stats sid req st =
     (if req_method req \<noteq> GET \<and> req_method req \<noteq> HEAD then (MethodNotAllowed, st)
      else (case find_one (urls st) (PStr sid) of
              Some url_data \<Rightarrow>
                (StatsJson \<lparr> sv_long_url = long_url url_data,
                              sv_clicks = clicks url_data,
                              sv_expiry_date = expiry_date url_data,
                              sv_max_clicks = max_clicks url_data,
                              sv_password_protected = truthy (password url_data),
                              sv_mobile_url = mobile_url url_data,
                              sv_desktop_url = desktop_url url_data,
                              sv_country_redirect = country_redirect url_data \<rparr>, st)
            | None \<Rightarrow> (ErrorJson 404 ''URL not found'', st)))"


section \<open>Updating the options (\<^verbatim>\<open>update_url\<close>, lines 228 to 264)\<close>

text \<open>
  The loop of lines 241 to 258, one field after the other in the order of the list:
  a key that is not in the payload is skipped, \<^verbatim>\<open>""\<close> and \<^verbatim>\<open>null\<close> clear the field,
  \<^verbatim>\<open>max_clicks\<close> goes through \<^verbatim>\<open>int\<close>, \<^verbatim>\<open>country_redirect\<close> through the parsing, and the
  other four values are taken as they are. \<^verbatim>\<open>int\<close> (third field) raises before
  \<^verbatim>\<open>.split\<close> (sixth field) can.
\<close>

definition plain_field :: "(string \<times> pyval) list \<Rightarrow> string \<Rightarrow> pyval option" where
  "plain_field data k =
     (case map_of data k of
        None \<Rightarrow> None
      | Some v \<Rightarrow> Some (if v = PStr [] \<or> v = PNone then PNone else v))"

definition max_clicks_field :: "(string \<times> pyval) list \<Rightarrow> py_error + int option option" where
  "max_clicks_field data =
     (case map_of data ''max_clicks'' of
        None \<Rightarrow> Inr None
      | Some v \<Rightarrow>
          if v = PStr [] \<or> v = PNone then Inr (Some None)
          else (case py_int v of Inl e \<Rightarrow> Inl e | Inr n \<Rightarrow> Inr (Some (Some n))))"

definition country_redirect_field ::
  "(string \<times> pyval) list \<Rightarrow> py_error + (string \<times> string) list option option" where
  "country_redirect_field data =
     (case map_of data ''country_redirect'' of
        None \<Rightarrow> Inr None
      | Some v \<Rightarrow>
          if v = PStr [] \<or> v = PNone then Inr (Some None)
          else (case parse_country_redirect v of
                  Inl e \<Rightarrow> Inl e
                | Inr country_dict \<Rightarrow> Inr (Some (Some country_dict))))"

definition collect_update_fields :: "(string \<times> pyval) list \<Rightarrow> py_error + update_fields" where
  "collect_update_fields data =
     (case max_clicks_field data of
        Inl e \<Rightarrow> Inl e
      | Inr mc \<Rightarrow>
          (case country_redirect_field data of
             Inl e \<Rightarrow> Inl e
           | Inr cr \<Rightarrow>
               Inr \<lparr> set_password = plain_field data ''password'',
                     set_expiry_date = plain_field data ''expiry_date'',
                     set_max_clicks = mc,
                     set_mobile_url = plain_field data ''mobile_url'',
                     set_desktop_url = plain_field data ''desktop_url'',
                     set_country_redirect = cr \<rparr>))"

text \<open>\<^verbatim>\<open>not update_fields\<close>: the dict is empty.\<close>

definition no_updates :: "update_fields \<Rightarrow> bool" where
  "no_updates uf =
     (set_password uf = None \<and> set_expiry_date uf = None \<and> set_max_clicks uf = None \<and>
      set_mobile_url uf = None \<and> set_desktop_url uf = None \<and> set_country_redirect uf = None)"

text \<open>\<^verbatim>\<open>{"$set": update_fields}\<close> on one document.\<close>

definition apply_set :: "update_fields \<Rightarrow> url_entry \<Rightarrow> url_entry" where
  "apply_set uf d =
     d\<lparr> password := (case set_password uf of None \<Rightarrow> password d | Some v \<Rightarrow> v),
        expiry_date := (case set_expiry_date uf of None \<Rightarrow> expiry_date d | Some v \<Rightarrow> v),
        max_clicks := (case set_max_clicks uf of None \<Rightarrow> max_clicks d | Some v \<Rightarrow> v),
        mobile_url := (case set_mobile_url uf of None \<Rightarrow> mobile_url d | Some v \<Rightarrow> v),
        desktop_url := (case set_desktop_url uf of None \<Rightarrow> desktop_url d | Some v \<Rightarrow> v),
        country_redirect :=
          (case set_country_redirect uf of None \<Rightarrow> country_redirect d | Some v \<Rightarrow> v) \<rparr>"

text \<open>The handler. The route accepts \<^verbatim>\<open>PATCH\<close> and \<^verbatim>\<open>POST\<close>.\<close>

definition update_url :: "string \<Rightarrow> request \<Rightarrow> state \<Rightarrow> response \<times> state" where
  "update_url sid req st =
     (if req_method req \<noteq> PATCH \<and> req_method req \<noteq> POST then (MethodNotAllowed, st)
      else
        (case find_one (urls st) (PStr sid) of
           None \<Rightarrow> (ErrorJson 404 ''URL not found'', st)
         | Some url_data \<Rightarrow>
             if \<not> is_json req then (ErrorJson 400 ''Send JSON data'', st)
             else
               (case collect_update_fields (json req) of
                  Inl e \<Rightarrow> (InternalServerError e, st)
                | Inr uf \<Rightarrow>
                    if no_updates uf then (MessageJson 400 ''No updates provided'', st)
                    else (Updated uf,
                          st\<lparr>urls := update_one (urls st) (PStr sid) (apply_set uf)\<rparr>))))"

section \<open>The service as a transition system\<close>

text \<open>
  One request to one of the six routes. A creation request comes with the candidates its
  generation loop draws, a redirect request with the clock's reading.
\<close>

datatype operation =
    OpHome request
  | OpShorten "string list" request
  | OpRedirect datetime string request
  | OpQr string request
  | OpStats string request
  | OpUpdate string request

fun step :: "operation \<Rightarrow> state \<Rightarrow> (response \<times> state) option" where
  "step (OpHome req) st = Some (home req st)"
| "step (OpShorten candidates req) st = shorten candidates req st"
| "step (OpRedirect now sid req) st = Some (redirect_short_url now sid req st)"
| "step (OpQr sid req) st = Some (get_qr sid req st)"
| "step (OpStats sid req) st = Some (stats sid req st)"
| "step (OpUpdate sid req) st = Some (update_url sid req st)"


section \<open>Example documents and requests\<close>

definition desktop_get :: request where
  "desktop_get = \<lparr> req_method = GET, is_json = False, json = [], form = [],
                   ua = \<lparr> is_mobile = False, is_pc = True \<rparr>, x_country = None \<rparr>"

definition mobile_get :: request where
  "mobile_get = \<lparr> req_method = GET, is_json = False, json = [], form = [],
                  ua = \<lparr> is_mobile = True, is_pc = False \<rparr>, x_country = None \<rparr>"

definition plain_doc :: url_entry where
  "plain_doc = \<lparr> short_id = PStr ''promo'', long_url = PStr ''https://example.com'',
                 clicks = 0, password = PNone, expiry_date = PNone, max_clicks = None,
                 mobile_url = PNone, desktop_url = PNone, country_redirect = None \<rparr>"

definition full_doc :: url_entry where
  "full_doc = plain_doc \<lparr> mobile_url := PStr ''https://m.x.com'',
                          desktop_url := PStr ''https://d.x.com'',
                          country_redirect :=
                            Some [(''US'', ''https://us.x.com''), (''IN'', ''https://in.x.com'')] \<rparr>"

definition secret_doc :: url_entry where
  "secret_doc = plain_doc \<lparr> password := PStr ''secret'' \<rparr>"

definition bare_post :: request where
  "bare_post = desktop_get \<lparr> req_method := POST \<rparr>"

definition noon :: datetime where
  "noon = DateTime 2025 6 15 12 0 0 0"

definition empty_state :: state where
  "empty_state = \<lparr> urls = [], qr_files = [] \<rparr>"

definition promo_state :: state where
  "promo_state = \<lparr> urls = [plain_doc], qr_files = [''promo''] \<rparr>"

text \<open>The creation request of the first end-to-end scenario, as a JSON \<^verbatim>\<open>POST\<close>.\<close>

definition create_req :: request where
  "create_req = bare_post \<lparr> is_json := True,
                             json := [(''long_url'', PStr ''https://example.com''),
                                      (''max_clicks'', PInt 2)] \<rparr>"

definition created_doc :: url_entry where
  "created_doc = plain_doc \<lparr> short_id := PStr ''abc123'', max_clicks := Some 2 \<rparr>"

text \<open>A creation request whose \<^verbatim>\<open>country_redirect\<close> has a pair with an empty country code.\<close>

definition empty_code_req :: request where
  "empty_code_req = bare_post \<lparr> is_json := True,
                                 json := [(''long_url'', PStr ''https://example.com''),
                                          (''country_redirect'', PStr ''=https://other.example'')] \<rparr>"

definition empty_code_doc :: url_entry where
  "empty_code_doc = plain_doc \<lparr> short_id := PStr ''abc123'',
                                country_redirect := Some [([], ''https://other.example'')] \<rparr>"

text \<open>A creation request and an update request whose \<^verbatim>\<open>expiry_date\<close> is not a date.\<close>

definition bad_date_req :: request where
  "bad_date_req = bare_post \<lparr> is_json := True,
                               json := [(''long_url'', PStr ''https://example.com''),
                                        (''expiry_date'', PStr ''tomorrow'')] \<rparr>"

definition bad_date_doc :: url_entry where
  "bad_date_doc = plain_doc \<lparr> short_id := PStr ''abc123'', expiry_date := PStr ''tomorrow'' \<rparr>"

definition bad_date_update :: request where
  "bad_date_update = bare_post \<lparr> is_json := True, json := [(''expiry_date'', PStr ''tomorrow'')] \<rparr>"

text \<open>Update requests: two options at once, and a payload with no recognized field.\<close>

definition options_update :: request where
  "options_update = bare_post \<lparr> is_json := True,
                                 json := [(''password'', PStr ''secret''),
                                          (''max_clicks'', PStr ''7'')] \<rparr>"

definition new_long_url_req :: request where
  "new_long_url_req = bare_post \<lparr> is_json := True,
                                  json := [(''long_url'', PStr ''https://new.example'')] \<rparr>"

definition bad_max_clicks_update :: request where
  "bad_max_clicks_update = bare_post \<lparr> is_json := True,
                                        json := [(''password'', PStr ''secret''),
                                                 (''max_clicks'', PStr ''abc'')] \<rparr>"

text \<open>What the HTML form of \<^verbatim>\<open>/shorten\<close> submits when only the long URL is filled in.\<close>

definition blank_form_req :: request where
  "blank_form_req = bare_post \<lparr> form := [(''long_url'', ''https://example.com''),
                                          (''custom_id'', []), (''password'', []),
                                          (''expiry_date'', []), (''max_clicks'', []),
                                          (''mobile_url'', []), (''desktop_url'', []),
                                          (''country_redirect'', [])] \<rparr>"

section \<open>Redirect target resolution\<close>

lemma map_of_Some_key: "map_of cd k = Some u \<Longrightarrow> cd \<noteq> [] \<and> k \<in> fst ` set cd"
  using map_of_SomeD [of cd k u] by force

lemma get_country_redirect_Some:
  "country_redirect r = Some cd \<Longrightarrow> map_of cd k = Some u \<Longrightarrow> get_country_redirect r k = PStr u"
  using map_of_Some_key [of cd k u] by (simp add: get_country_redirect_def)

lemma get_country_redirect_cases:
  "get_country_redirect r k = PNone \<or>
   (\<exists>cd u. country_redirect r = Some cd \<and> map_of cd k = Some u \<and> get_country_redirect r k = PStr u)"
  by (auto simp: get_country_redirect_def split: option.splits)

text \<open>
  C1 as stated fails: a code that is a key of the mapping does not give the mapped URL
  when that URL is empty. The creation request \<^verbatim>\<open>country_redirect = "US="\<close> stores the
  mapping \<^verbatim>\<open>{"US": ""}\<close>; a desktop request with \<^verbatim>\<open>X-Country: us\<close> finds the key \<^verbatim>\<open>US\<close> and
  is still sent to \<^verbatim>\<open>long_url\<close>, because line 194 tests the mapped URL for truth.
\<close>

theorem C1_empty_country_url_counterexample:
  "parse_country_redirect (PStr ''US='') = Inr [(''US'', [])] \<and>
   map_of [(''US'', [])] (country_code (desktop_get \<lparr> x_country := Some ''us'' \<rparr>)) = Some [] \<and>
   target_url (plain_doc \<lparr> country_redirect := Some [(''US'', [])] \<rparr>)
              (desktop_get \<lparr> x_country := Some ''us'' \<rparr>) = PStr ''https://example.com'' \<and>
   target_url (plain_doc \<lparr> country_redirect := Some [(''US'', [])] \<rparr>)
              (desktop_get \<lparr> x_country := Some ''us'' \<rparr>) \<noteq> PStr []"
  by (simp add: split_first_def strip_def upper_def to_upper_def is_space_def country_code_def
      target_url_def device_url_def get_country_redirect_def plain_doc_def desktop_get_def)

text \<open>
  C1, amended: the precedence is country override, then device override, then
  \<^verbatim>\<open>long_url\<close>, where the country override applies when the upper-cased country code of the
  request is a key of \<^verbatim>\<open>country_redirect\<close> mapped to a non-empty URL (whatever the device
  class and the device URLs are). Otherwise the target is \<^verbatim>\<open>mobile_url\<close> for a mobile
  request with \<^verbatim>\<open>mobile_url\<close> set, else \<^verbatim>\<open>desktop_url\<close> for a desktop request with
  \<^verbatim>\<open>desktop_url\<close> set, else \<^verbatim>\<open>long_url\<close>.
\<close>

theorem C1_target_url_precedence:
  "(\<forall>cd u. country_redirect r = Some cd \<and> map_of cd (country_code req) = Some u \<and> u \<noteq> []
       \<longrightarrow> target_url r req = PStr u) \<and>
   ((\<forall>cd u. country_redirect r = Some cd \<and> map_of cd (country_code req) = Some u \<longrightarrow> u = [])
       \<longrightarrow> (is_mobile (ua req) \<and> truthy (mobile_url r) \<longrightarrow> target_url r req = mobile_url r) \<and>
           (\<not> (is_mobile (ua req) \<and> truthy (mobile_url r)) \<and>
            is_pc (ua req) \<and> truthy (desktop_url r) \<longrightarrow> target_url r req = desktop_url r) \<and>
           (\<not> (is_mobile (ua req) \<and> truthy (mobile_url r)) \<and>
            \<not> (is_pc (ua req) \<and> truthy (desktop_url r)) \<longrightarrow> target_url r req = long_url r))"
proof (intro conjI allI impI)
  fix cd u
  assume "country_redirect r = Some cd \<and> map_of cd (country_code req) = Some u \<and> u \<noteq> []"
  then show "target_url r req = PStr u"
    by (simp add: target_url_def get_country_redirect_Some)
next
  assume none: "\<forall>cd u. country_redirect r = Some cd \<and> map_of cd (country_code req) = Some u
                  \<longrightarrow> u = []"
  have falsy: "\<not> truthy (get_country_redirect r (country_code req))"
    using get_country_redirect_cases [of r "country_code req"] none by auto
  then have dev: "target_url r req = device_url r req"
    by (simp add: target_url_def)
  {
    assume "is_mobile (ua req) \<and> truthy (mobile_url r)"
    then show "target_url r req = mobile_url r"
      by (simp add: dev device_url_def)
  next
    assume "\<not> (is_mobile (ua req) \<and> truthy (mobile_url r)) \<and>
            is_pc (ua req) \<and> truthy (desktop_url r)"
    then show "target_url r req = desktop_url r"
      by (auto simp: dev device_url_def)
  next
    assume "\<not> (is_mobile (ua req) \<and> truthy (mobile_url r)) \<and>
            \<not> (is_pc (ua req) \<and> truthy (desktop_url r))"
    then show "target_url r req = long_url r"
      by (auto simp: dev device_url_def)
  }
qed

theorem C1_target_url_precedence_witness:
  "target_url full_doc (mobile_get \<lparr> x_country := Some ''in'' \<rparr>) = PStr ''https://in.x.com'' \<and>
   target_url full_doc (mobile_get \<lparr> x_country := Some ''fr'' \<rparr>) = PStr ''https://m.x.com'' \<and>
   target_url full_doc (desktop_get \<lparr> x_country := Some ''fr'' \<rparr>) = PStr ''https://d.x.com'' \<and>
   target_url plain_doc (desktop_get \<lparr> x_country := Some ''fr'' \<rparr>) = PStr ''https://example.com''"
proof -
  let ?cd = "[(''US'', ''https://us.x.com''), (''IN'', ''https://in.x.com'')]"
  have cc: "country_code (mobile_get \<lparr> x_country := Some ''in'' \<rparr>) = ''IN''"
           "country_code (mobile_get \<lparr> x_country := Some ''fr'' \<rparr>) = ''FR''"
           "country_code (desktop_get \<lparr> x_country := Some ''fr'' \<rparr>) = ''FR''"
    by (simp_all add: country_code_def upper_def to_upper_def)
  have a: "target_url full_doc (mobile_get \<lparr> x_country := Some ''in'' \<rparr>) = PStr ''https://in.x.com''"
    using C1_target_url_precedence [of full_doc "mobile_get \<lparr> x_country := Some ''in'' \<rparr>",
        THEN conjunct1, rule_format, of ?cd "''https://in.x.com''", unfolded cc]
    by (simp add: full_doc_def plain_doc_def)
  have b: "target_url full_doc (mobile_get \<lparr> x_country := Some ''fr'' \<rparr>) = PStr ''https://m.x.com''"
    using C1_target_url_precedence [of full_doc "mobile_get \<lparr> x_country := Some ''fr'' \<rparr>",
        THEN conjunct2, unfolded cc]
    by (simp add: full_doc_def plain_doc_def mobile_get_def)
  have c: "target_url full_doc (desktop_get \<lparr> x_country := Some ''fr'' \<rparr>) = PStr ''https://d.x.com''"
    using C1_target_url_precedence [of full_doc "desktop_get \<lparr> x_country := Some ''fr'' \<rparr>",
        THEN conjunct2, unfolded cc]
    by (simp add: full_doc_def plain_doc_def desktop_get_def)
  have d: "target_url plain_doc (desktop_get \<lparr> x_country := Some ''fr'' \<rparr>) = PStr ''https://example.com''"
    using C1_target_url_precedence [of plain_doc "desktop_get \<lparr> x_country := Some ''fr'' \<rparr>",
        THEN conjunct2, unfolded cc]
    by (simp add: plain_doc_def desktop_get_def)
  show ?thesis using a b c d by simp
qed


section \<open>The password check\<close>

text \<open>
  C2 as stated fails: a request that carries no password field is not always re-prompted.
  A \<^verbatim>\<open>POST\<close> with neither a form field nor a JSON field \<^verbatim>\<open>password\<close> to a protected
  record is answered 403 \<^verbatim>\<open>Incorrect password\<close>: line 168 looks at the method only, and
  the missing field reads as \<^verbatim>\<open>None\<close>, which differs from the stored password.
\<close>

theorem C2_post_without_password_counterexample:
  "form_get (form bare_post) ''password'' = PNone \<and> is_json bare_post = False \<and>
   password secret_doc = PStr ''secret'' \<and>
   password_gate secret_doc bare_post = Denied \<and>
   redirect_short_url noon ''promo'' bare_post \<lparr> urls = [secret_doc], qr_files = [] \<rparr>
     = (ErrorHtml 403 ''Incorrect password'', \<lparr> urls = [secret_doc], qr_files = [] \<rparr>)"
  by (simp add: bare_post_def desktop_get_def secret_doc_def plain_doc_def form_get_def
      password_gate_def input_pwd_def py_or_def redirect_short_url_def find_one_def
      is_expired_def)

text \<open>
  C2, amended: the gate looks at the method. For every record with a password set, a
  request whose method is not \<^verbatim>\<open>POST\<close> gets the re-prompt \<open>PasswordRequired\<close>, whatever it
  carries; a \<^verbatim>\<open>POST\<close> request gets \<open>Allow\<close> exactly when the submitted value (the form field
  \<^verbatim>\<open>password\<close> if it is non-empty, else the JSON field \<^verbatim>\<open>password\<close> of a JSON body, else
  \<^verbatim>\<open>None\<close>) equals the stored password, and \<open>Denied\<close> otherwise, so a \<^verbatim>\<open>POST\<close> that carries
  no password is denied. For every record with no password set the gate allows. In the
  handler, for a stored record that has not expired, \<open>PasswordRequired\<close> is the password
  form, \<open>Denied\<close> the 403 response and \<open>Allow\<close> the redirect.
\<close>

theorem C2_password_gate:
  "(\<not> truthy (password r) \<longrightarrow> password_gate r req = Allow) \<and>
   (truthy (password r) \<and> req_method req \<noteq> POST \<longrightarrow> password_gate r req = PasswordRequired) \<and>
   (truthy (password r) \<and> req_method req = POST \<longrightarrow>
      password_gate r req = (if input_pwd req = password r then Allow else Denied)) \<and>
   (req_method req \<noteq> PATCH \<and> find_one (urls st) (PStr sid) = Some r \<and>
    is_expired now r = Inr False \<longrightarrow>
      fst (redirect_short_url now sid req st) =
        (case password_gate r req of
           PasswordRequired \<Rightarrow> PasswordForm
         | Denied \<Rightarrow> ErrorHtml 403 ''Incorrect password''
         | Allow \<Rightarrow> Redirect (target_url r req)))"
  by (auto simp: password_gate_def redirect_short_url_def split: gate.splits)

theorem C2_password_gate_witness:
  "password_gate plain_doc bare_post = Allow \<and>
   password_gate secret_doc desktop_get = PasswordRequired \<and>
   password_gate secret_doc (bare_post \<lparr> form := [(''password'', ''secret'')] \<rparr>) = Allow \<and>
   password_gate secret_doc (bare_post \<lparr> form := [(''password'', ''Secret'')] \<rparr>) = Denied \<and>
   fst (redirect_short_url noon ''promo'' desktop_get \<lparr> urls = [secret_doc], qr_files = [] \<rparr>)
     = PasswordForm"
proof -
  let ?st = "\<lparr> urls = [secret_doc], qr_files = [] \<rparr>"
  have a: "password_gate plain_doc bare_post = Allow"
    using C2_password_gate [of plain_doc bare_post, THEN conjunct1]
    by (simp add: plain_doc_def)
  have b: "password_gate secret_doc desktop_get = PasswordRequired"
    using C2_password_gate [of secret_doc desktop_get, THEN conjunct2, THEN conjunct1]
    by (simp add: secret_doc_def plain_doc_def desktop_get_def)
  have c: "password_gate secret_doc (bare_post \<lparr> form := [(''password'', ''secret'')] \<rparr>) = Allow"
    using C2_password_gate [of secret_doc "bare_post \<lparr> form := [(''password'', ''secret'')] \<rparr>",
        THEN conjunct2, THEN conjunct2, THEN conjunct1]
    by (simp add: secret_doc_def plain_doc_def bare_post_def desktop_get_def input_pwd_def
        form_get_def py_or_def)
  have d: "password_gate secret_doc (bare_post \<lparr> form := [(''password'', ''Secret'')] \<rparr>) = Denied"
    using C2_password_gate [of secret_doc "bare_post \<lparr> form := [(''password'', ''Secret'')] \<rparr>",
        THEN conjunct2, THEN conjunct2, THEN conjunct1]
    by (simp add: secret_doc_def plain_doc_def bare_post_def desktop_get_def input_pwd_def
        form_get_def py_or_def)
  have e: "fst (redirect_short_url noon ''promo'' desktop_get ?st) = PasswordForm"
    using C2_password_gate [of secret_doc desktop_get ?st "''promo''" noon,
        THEN conjunct2, THEN conjunct2, THEN conjunct2] b
    by (simp add: secret_doc_def plain_doc_def desktop_get_def find_one_def is_expired_def)
  show ?thesis using a b c d e by simp
qed

section \<open>Expiry and quota\<close>

text \<open>
  C3: \<^verbatim>\<open>is_expired\<close> is the disjunction of the date check and the quota check. With a
  well-formed \<^verbatim>\<open>expiry_date\<close> (one that \<^verbatim>\<open>strptime\<close> parses) strictly before \<open>now\<close> it
  returns true. With a well-formed date that is not before \<open>now\<close>, or with the field
  absent or empty, the date check contributes nothing and the result is the quota check
  alone: false without \<^verbatim>\<open>max_clicks\<close>, and with \<^verbatim>\<open>max_clicks = N > 0\<close> false while
  \<^verbatim>\<open>clicks < N\<close> and true once \<^verbatim>\<open>clicks >= N\<close>.
\<close>

theorem C3_is_expired_disjunction:
  "(\<forall>s dt. expiry_date r = PStr s \<and> s \<noteq> [] \<and> strptime s = Inr dt \<and> dt_gt now dt
      \<longrightarrow> is_expired now r = Inr True) \<and>
   ((\<not> truthy (expiry_date r) \<or>
     (\<exists>s dt. expiry_date r = PStr s \<and> strptime s = Inr dt \<and> \<not> dt_gt now dt))
      \<longrightarrow> (max_clicks r = None \<longrightarrow> is_expired now r = Inr False) \<and>
          (\<forall>N. max_clicks r = Some N \<and> 0 < N \<longrightarrow>
             (clicks r < N \<longrightarrow> is_expired now r = Inr False) \<and>
             (clicks r \<ge> N \<longrightarrow> is_expired now r = Inr True)))"
  by (auto simp: is_expired_def)


lemma strptime_new_year_2025:
  "strptime ''2025-01-01 00:00:00'' = Inr (DateTime 2025 1 1 0 0 0 0)"
  by (simp add: strptime_def format_regex_match_def re_Y_def re_m_def re_d_def re_H_def
      re_M_def re_S_def lit_def is_space_def digits2_def digits1_def digit_of_def
      days_in_month_def)

lemma strptime_new_year_2030:
  "strptime ''2030-01-01 00:00:00'' = Inr (DateTime 2030 1 1 0 0 0 0)"
  by (simp add: strptime_def format_regex_match_def re_Y_def re_m_def re_d_def re_H_def
      re_M_def re_S_def lit_def is_space_def digits2_def digits1_def digit_of_def
      days_in_month_def)

theorem C3_is_expired_disjunction_witness:
  "is_expired noon (plain_doc \<lparr> expiry_date := PStr ''2025-01-01 00:00:00'' \<rparr>) = Inr True \<and>
   is_expired noon plain_doc = Inr False \<and>
   is_expired noon (plain_doc \<lparr> clicks := 1, expiry_date := PStr ''2030-01-01 00:00:00'',
                                max_clicks := Some 2 \<rparr>) = Inr False \<and>
   is_expired noon (plain_doc \<lparr> clicks := 2, expiry_date := PStr ''2030-01-01 00:00:00'',
                                max_clicks := Some 2 \<rparr>) = Inr True"
proof -
  let ?past = "plain_doc \<lparr> expiry_date := PStr ''2025-01-01 00:00:00'' \<rparr>"
  let ?one = "plain_doc \<lparr> clicks := 1, expiry_date := PStr ''2030-01-01 00:00:00'',
                          max_clicks := Some 2 \<rparr>"
  let ?two = "plain_doc \<lparr> clicks := 2, expiry_date := PStr ''2030-01-01 00:00:00'',
                          max_clicks := Some 2 \<rparr>"
  have before: "dt_gt noon (DateTime 2025 1 1 0 0 0 0)"
    and after: "\<not> dt_gt noon (DateTime 2030 1 1 0 0 0 0)"
    by (simp_all add: dt_gt_def noon_def)
  have a: "is_expired noon ?past = Inr True"
    using C3_is_expired_disjunction [of ?past noon, THEN conjunct1, rule_format,
        of "''2025-01-01 00:00:00''" "DateTime 2025 1 1 0 0 0 0"]
      strptime_new_year_2025 before
    by (simp add: plain_doc_def)
  have b: "is_expired noon plain_doc = Inr False"
    using C3_is_expired_disjunction [of plain_doc noon, THEN conjunct2]
    by (simp add: plain_doc_def)
  have future: "\<exists>s dt. PStr ''2030-01-01 00:00:00'' = PStr s \<and> strptime s = Inr dt \<and>
                  \<not> dt_gt noon dt"
    using strptime_new_year_2030 after by blast
  have c: "is_expired noon ?one = Inr False"
    using C3_is_expired_disjunction [of ?one noon, THEN conjunct2] future
    by (simp add: plain_doc_def)
  have d: "is_expired noon ?two = Inr True"
    using C3_is_expired_disjunction [of ?two noon, THEN conjunct2] future
    by (simp add: plain_doc_def)
  show ?thesis using a b c d by simp
qed


section \<open>The click counter\<close>

lemma length_update_one: "length (update_one ds sid f) = length ds"
  by (induction ds) auto

lemma nth_update_one:
  "i < length ds \<Longrightarrow> update_one ds sid f ! i = ds ! i \<or> update_one ds sid f ! i = f (ds ! i)"
proof (induction ds arbitrary: i)
  case Nil
  then show ?case by simp
next
  case (Cons d ds)
  then show ?case by (cases i) auto
qed

lemma find_one_update_one:
  assumes "\<And>d. short_id (f d) = short_id d"
  shows "find_one (update_one ds sid f) sid = map_option f (find_one ds sid)"
  using assms by (induction ds) (auto simp: find_one_def)

lemma sum_clicks_update_one:
  "find_one ds sid = Some d \<Longrightarrow>
   sum_list (map clicks (update_one ds sid (\<lambda>d. d\<lparr>clicks := clicks d + 1\<rparr>)))
     = sum_list (map clicks ds) + 1"
  by (induction ds) (auto simp: find_one_def)

lemma update_one_monotone:
  assumes "\<And>d. short_id (f d) = short_id d" and "\<And>d. clicks d \<le> clicks (f d)"
    and "i < length ds"
  shows "short_id (update_one ds sid f ! i) = short_id (ds ! i) \<and>
         clicks (ds ! i) \<le> clicks (update_one ds sid f ! i)"
  using nth_update_one [OF assms(3), of sid f] assms(1,2) by auto

lemma apply_set_keeps:
  "short_id (apply_set uf d) = short_id d" "long_url (apply_set uf d) = long_url d"
  "clicks (apply_set uf d) = clicks d"
  by (simp_all add: apply_set_def)

lemma shorten_appends:
  assumes "shorten candidates req st = Some (resp, st')"
  shows "urls st' = urls st \<or>
         (\<exists>e. urls st' = urls st @ [e] \<and> clicks e = 0 \<and> new_entry (short_id e) req = Inr e)"
proof -
  have entry: "new_entry sid req = Inr e \<Longrightarrow> clicks e = 0 \<and> short_id e = sid" for sid e
    by (auto simp: new_entry_def split: if_splits sum.splits)
  show ?thesis
    using assms entry
    by (auto simp: shorten_def split: if_splits option.splits allocation.splits sum.splits
        pyval.splits)
qed

lemma shorten_created:
  assumes "shorten candidates req st = Some (Created s, st')"
  shows "\<exists>e. urls st' = urls st @ [e] \<and> short_id e = PStr s \<and> clicks e = 0 \<and>
             new_entry (PStr s) req = Inr e \<and> find_one (urls st) (PStr s) = None"
proof -
  have entry: "new_entry sid req = Inr e \<Longrightarrow> clicks e = 0 \<and> short_id e = sid" for sid e
    by (auto simp: new_entry_def split: if_splits sum.splits)
  have fresh: "fresh_short_id docs cs = Some c \<Longrightarrow> find_one docs (PStr c) = None" for docs cs c
    by (induction cs) (auto split: if_splits)
  have alloc: "allocate docs cid cs = Some (Allocated sid) \<Longrightarrow> find_one docs sid = None"
    for docs cid cs sid
    using fresh by (auto simp: allocate_def split: if_splits option.splits)
  show ?thesis
    using assms entry alloc
    by (auto simp: shorten_def split: if_splits option.splits allocation.splits sum.splits
        pyval.splits)
qed

text \<open>
  The creation handler returns as soon as the generator draws an id that is not stored
  (and at once for a request with a custom id).
\<close>

lemma fresh_short_id_returns:
  "\<exists>c \<in> set candidates. find_one docs (PStr c) = None \<Longrightarrow>
   \<exists>c. fresh_short_id docs candidates = Some c"
  by (induction candidates) auto

lemma shorten_returns:
  assumes "truthy (request_field req ''custom_id'') \<or>
           (\<exists>c \<in> set candidates. find_one (urls st) (PStr c) = None)"
  shows "\<exists>resp st'. shorten candidates req st = Some (resp, st')"
proof -
  have "\<exists>a. allocate (urls st) (request_field req ''custom_id'') candidates = Some a"
  proof (cases "truthy (request_field req ''custom_id'')")
    case True
    then show ?thesis by (simp add: allocate_def)
  next
    case False
    with assms have "\<exists>c \<in> set candidates. find_one (urls st) (PStr c) = None" by blast
    from fresh_short_id_returns [OF this] False show ?thesis
      by (auto simp: allocate_def)
  qed
  then show ?thesis
    by (auto simp: shorten_def split: allocation.splits sum.splits pyval.splits)
qed

lemma redirect_state:
  "snd (redirect_short_url now sid req st) = st \<or>
   snd (redirect_short_url now sid req st)
     = st\<lparr>urls := update_one (urls st) (PStr sid) (\<lambda>d. d\<lparr>clicks := clicks d + 1\<rparr>)\<rparr>"
  by (auto simp: redirect_short_url_def split: option.splits sum.splits bool.splits gate.splits)

lemma update_state:
  "snd (update_url sid req st) = st \<or>
   (\<exists>uf. snd (update_url sid req st) = st\<lparr>urls := update_one (urls st) (PStr sid) (apply_set uf)\<rparr>)"
  by (auto simp: update_url_def split: option.splits sum.splits)

lemma step_monotone:
  assumes "step op st = Some (resp, st')" and "i < length (urls st)"
  shows "length (urls st) \<le> length (urls st') \<and>
         short_id (urls st' ! i) = short_id (urls st ! i) \<and>
         clicks (urls st ! i) \<le> clicks (urls st' ! i)"
proof (cases op)
  case (OpHome req)
  with assms show ?thesis by (auto simp: home_def split: if_splits)
next
  case (OpShorten candidates req)
  with assms(1) have "shorten candidates req st = Some (resp, st')" by simp
  from shorten_appends [OF this] assms(2) show ?thesis
    by (auto simp: nth_append)
next
  case (OpRedirect now sid req)
  with assms(1) have st': "st' = snd (redirect_short_url now sid req st)" by auto
  from redirect_state [of now sid req st] show ?thesis
  proof
    assume "snd (redirect_short_url now sid req st) = st"
    with st' show ?thesis by simp
  next
    assume "snd (redirect_short_url now sid req st)
              = st\<lparr>urls := update_one (urls st) (PStr sid) (\<lambda>d. d\<lparr>clicks := clicks d + 1\<rparr>)\<rparr>"
    with st' show ?thesis
      using update_one_monotone [of "\<lambda>d. d\<lparr>clicks := clicks d + 1\<rparr>" i "urls st" "PStr sid"]
        assms(2)
      by (simp add: length_update_one)
  qed
next
  case (OpQr sid req)
  with assms show ?thesis by (auto simp: get_qr_def split: if_splits)
next
  case (OpStats sid req)
  with assms show ?thesis by (auto simp: stats_def split: if_splits option.splits)
next
  case (OpUpdate sid req)
  with assms(1) have st': "st' = snd (update_url sid req st)" by auto
  from update_state [of sid req st] show ?thesis
  proof
    assume "snd (update_url sid req st) = st"
    with st' show ?thesis by simp
  next
    assume "\<exists>uf. snd (update_url sid req st)
              = st\<lparr>urls := update_one (urls st) (PStr sid) (apply_set uf)\<rparr>"
    then obtain uf where
      "snd (update_url sid req st) = st\<lparr>urls := update_one (urls st) (PStr sid) (apply_set uf)\<rparr>"
      by blast
    with st' show ?thesis
      using update_one_monotone [of "apply_set uf" i "urls st" "PStr sid"] assms(2)
      by (simp add: length_update_one apply_set_keeps)
  qed
qed

lemma redirect_success:
  assumes "redirect_short_url now sid req st = (Redirect t, st')"
  shows "\<exists>d. find_one (urls st) (PStr sid) = Some d \<and>
             st' = st\<lparr>urls := update_one (urls st) (PStr sid) (\<lambda>d. d\<lparr>clicks := clicks d + 1\<rparr>)\<rparr>"
  using assms
  by (auto simp: redirect_short_url_def
      split: if_splits option.splits sum.splits bool.splits gate.splits)

lemma redirect_failure:
  assumes "\<forall>t. fst (redirect_short_url now sid req st) \<noteq> Redirect t"
  shows "snd (redirect_short_url now sid req st) = st"
  using assms
  by (auto simp: redirect_short_url_def
      split: if_splits option.splits sum.splits bool.splits gate.splits)


text \<open>
  C4: a record added by the creation operation starts with \<^verbatim>\<open>clicks = 0\<close>; no operation
  (home page, creation, redirect, QR, stats, update) removes a stored record, changes its
  short id or lowers its \<^verbatim>\<open>clicks\<close>; a redirect request that is answered with a redirect
  adds exactly one click, to the record it resolved, and a redirect request with any other
  answer (not found, expired or exhausted, password prompt, wrong password, an unhandled
  error) leaves the whole state as it was.
\<close>

theorem C4_clicks_counter:
  "(shorten candidates creq st = Some (resp1, st1) \<longrightarrow>
      urls st1 = urls st \<or> (\<exists>e. urls st1 = urls st @ [e] \<and> clicks e = 0)) \<and>
   (shorten candidates creq st = Some (Created s, st1) \<longrightarrow>
      (\<exists>e. urls st1 = urls st @ [e] \<and> short_id e = PStr s \<and> clicks e = 0)) \<and>
   (step op st = Some (resp2, st2) \<longrightarrow>
      length (urls st) \<le> length (urls st2) \<and>
      (\<forall>i < length (urls st).
         short_id (urls st2 ! i) = short_id (urls st ! i) \<and>
         clicks (urls st ! i) \<le> clicks (urls st2 ! i))) \<and>
   (redirect_short_url now sid req st = (Redirect t, st3) \<longrightarrow>
      (\<exists>d. find_one (urls st) (PStr sid) = Some d \<and>
           find_one (urls st3) (PStr sid) = Some (d\<lparr>clicks := clicks d + 1\<rparr>)) \<and>
      sum_list (map clicks (urls st3)) = sum_list (map clicks (urls st)) + 1 \<and>
      qr_files st3 = qr_files st) \<and>
   ((\<forall>t. fst (redirect_short_url now sid req st) \<noteq> Redirect t) \<longrightarrow>
      snd (redirect_short_url now sid req st) = st)"
proof (intro conjI impI)
  assume "shorten candidates creq st = Some (resp1, st1)"
  from shorten_appends [OF this]
  show "urls st1 = urls st \<or> (\<exists>e. urls st1 = urls st @ [e] \<and> clicks e = 0)"
    by blast
next
  assume "shorten candidates creq st = Some (Created s, st1)"
  from shorten_created [OF this]
  show "\<exists>e. urls st1 = urls st @ [e] \<and> short_id e = PStr s \<and> clicks e = 0"
    by blast
next
  assume a: "step op st = Some (resp2, st2)"
  show "length (urls st) \<le> length (urls st2)"
  proof (cases "urls st")
    case Nil
    then show ?thesis by simp
  next
    case (Cons d ds)
    then have "0 < length (urls st)" by simp
    from step_monotone [OF a this] show ?thesis by simp
  qed
  show "\<forall>i < length (urls st).
          short_id (urls st2 ! i) = short_id (urls st ! i) \<and>
          clicks (urls st ! i) \<le> clicks (urls st2 ! i)"
    using step_monotone [OF a] by blast
next
  assume "redirect_short_url now sid req st = (Redirect t, st3)"
  from redirect_success [OF this] obtain d where
    d: "find_one (urls st) (PStr sid) = Some d" and
    st3: "st3 = st\<lparr>urls := update_one (urls st) (PStr sid) (\<lambda>d. d\<lparr>clicks := clicks d + 1\<rparr>)\<rparr>"
    by blast
  have "find_one (urls st3) (PStr sid) = Some (d\<lparr>clicks := clicks d + 1\<rparr>)"
    using find_one_update_one [of "\<lambda>d. d\<lparr>clicks := clicks d + 1\<rparr>" "urls st" "PStr sid"] d st3
    by simp
  with d show "\<exists>d. find_one (urls st) (PStr sid) = Some d \<and>
                  find_one (urls st3) (PStr sid) = Some (d\<lparr>clicks := clicks d + 1\<rparr>)"
    by blast
  show "sum_list (map clicks (urls st3)) = sum_list (map clicks (urls st)) + 1"
    using sum_clicks_update_one [OF d] st3 by simp
  show "qr_files st3 = qr_files st"
    using st3 by simp
next
  assume "\<forall>t. fst (redirect_short_url now sid req st) \<noteq> Redirect t"
  then show "snd (redirect_short_url now sid req st) = st"
    by (rule redirect_failure)
qed


lemma shorten_create_req:
  "shorten [''abc123''] create_req empty_state
     = Some (Created ''abc123'', \<lparr> urls = [created_doc], qr_files = [''abc123''] \<rparr>)"
  by (simp add: shorten_def create_req_def bare_post_def desktop_get_def empty_state_def
      request_field_def dict_get_def allocate_def find_one_def new_entry_def py_or_def
      created_doc_def plain_doc_def)

lemma redirect_promo:
  "redirect_short_url noon ''promo'' desktop_get promo_state
     = (Redirect (PStr ''https://example.com''),
        \<lparr> urls = [plain_doc \<lparr> clicks := 1 \<rparr>], qr_files = [''promo''] \<rparr>)"
  by (simp add: redirect_short_url_def promo_state_def plain_doc_def desktop_get_def
      find_one_def is_expired_def password_gate_def target_url_def device_url_def
      get_country_redirect_def)

lemma redirect_unknown:
  "redirect_short_url noon ''nope'' desktop_get promo_state
     = (ErrorHtml 404 ''URL not found'', promo_state)"
  by (simp add: redirect_short_url_def promo_state_def plain_doc_def desktop_get_def
      find_one_def)

theorem C4_clicks_counter_witness:
  "(\<exists>e. [created_doc] = urls empty_state @ [e] \<and> short_id e = PStr ''abc123'' \<and> clicks e = 0) \<and>
   clicks (urls promo_state ! 0)
     \<le> clicks (urls (snd (redirect_short_url noon ''promo'' desktop_get promo_state)) ! 0) \<and>
   sum_list (map clicks (urls (snd (redirect_short_url noon ''promo'' desktop_get promo_state))))
     = sum_list (map clicks (urls promo_state)) + 1 \<and>
   snd (redirect_short_url noon ''nope'' desktop_get promo_state) = promo_state"
proof -
  let ?st1 = "\<lparr> urls = [created_doc], qr_files = [''abc123''] \<rparr>"
  let ?st3 = "\<lparr> urls = [plain_doc \<lparr> clicks := 1 \<rparr>], qr_files = [''promo''] \<rparr>"
  let ?ok = "Redirect (PStr ''https://example.com'')"
  have a: "\<exists>e. [created_doc] = urls empty_state @ [e] \<and> short_id e = PStr ''abc123'' \<and>
               clicks e = 0"
    using C4_clicks_counter [of "[''abc123'']" create_req empty_state "Created ''abc123''" ?st1
        "''abc123''", THEN conjunct2, THEN conjunct1] shorten_create_req
    by simp
  have step: "step (OpRedirect noon ''promo'' desktop_get) promo_state = Some (?ok, ?st3)"
    using redirect_promo by simp
  have b: "clicks (urls promo_state ! 0) \<le> clicks (urls ?st3 ! 0)"
    using C4_clicks_counter [of _ _ promo_state _ _ _ "OpRedirect noon ''promo'' desktop_get"
        ?ok ?st3, THEN conjunct2, THEN conjunct2, THEN conjunct1] step
    by (simp add: promo_state_def)
  have c: "sum_list (map clicks (urls ?st3)) = sum_list (map clicks (urls promo_state)) + 1"
    using C4_clicks_counter [of _ _ promo_state _ _ _ _ _ _ noon "''promo''" desktop_get
        "PStr ''https://example.com''" ?st3,
        THEN conjunct2, THEN conjunct2, THEN conjunct2, THEN conjunct1] redirect_promo
    by simp
  have d: "snd (redirect_short_url noon ''nope'' desktop_get promo_state) = promo_state"
    using C4_clicks_counter [of _ _ promo_state _ _ _ _ _ _ noon "''nope''" desktop_get,
        THEN conjunct2, THEN conjunct2, THEN conjunct2, THEN conjunct2] redirect_unknown
    by simp
  show ?thesis using a b c d redirect_promo by simp
qed


section \<open>A request without the \<^verbatim>\<open>X-Country\<close> header\<close>

text \<open>
  C5 does not hold of the code. The comment at line 191 says the country-based redirect
  is for a request that sends \<^verbatim>\<open>X-Country\<close>, but line 192 reads a missing header as
  \<^verbatim>\<open>""\<close> and looks that up like any code. The creation request
  \<^verbatim>\<open>country_redirect = "=https://other.example"\<close> stores the mapping with the key \<^verbatim>\<open>""\<close>, and
  a desktop request without the header is then sent to the country URL instead of
  \<^verbatim>\<open>long_url\<close>.
\<close>

theorem C5_missing_header_gets_override:
  "shorten [''abc123''] empty_code_req empty_state
     = Some (Created ''abc123'', \<lparr> urls = [empty_code_doc], qr_files = [''abc123''] \<rparr>) \<and>
   x_country desktop_get = None \<and>
   device_url empty_code_doc desktop_get = PStr ''https://example.com'' \<and>
   redirect_short_url noon ''abc123'' desktop_get
       \<lparr> urls = [empty_code_doc], qr_files = [''abc123''] \<rparr>
     = (Redirect (PStr ''https://other.example''),
        \<lparr> urls = [empty_code_doc \<lparr> clicks := 1 \<rparr>], qr_files = [''abc123''] \<rparr>)"
  by (simp add: shorten_def empty_code_req_def bare_post_def desktop_get_def empty_state_def
      request_field_def dict_get_def allocate_def find_one_def new_entry_def py_or_def
      empty_code_doc_def plain_doc_def split_first_def strip_def upper_def is_space_def
      redirect_short_url_def is_expired_def password_gate_def target_url_def device_url_def
      country_code_def get_country_redirect_def)

text \<open>
  Where the mapping has no entry for the empty code, a request without the header is
  resolved by the device override and the \<^verbatim>\<open>long_url\<close> fallback alone.
\<close>

lemma missing_header_no_override:
  assumes "x_country req = None"
    and "\<forall>cd. country_redirect r = Some cd \<longrightarrow> map_of cd [] = None"
  shows "target_url r req = device_url r req"
proof -
  have "country_code req = []"
    using assms(1) by (simp add: country_code_def upper_def)
  then have "get_country_redirect r (country_code req) = PNone"
    using get_country_redirect_cases [of r "[]"] assms(2) by auto
  then show ?thesis by (simp add: target_url_def)
qed

section \<open>Malformed expiry dates\<close>

lemma strptime_tomorrow: "strptime ''tomorrow'' = Inl ValueError"
  by (simp add: strptime_def format_regex_match_def re_Y_def digits2_def digit_of_def)

lemma shorten_bad_date:
  "shorten [''abc123''] bad_date_req empty_state
     = Some (Created ''abc123'', \<lparr> urls = [bad_date_doc], qr_files = [''abc123''] \<rparr>)"
  by (simp add: shorten_def bad_date_req_def bare_post_def desktop_get_def empty_state_def
      request_field_def dict_get_def allocate_def find_one_def new_entry_def py_or_def
      bad_date_doc_def plain_doc_def)

text \<open>
  C6 as stated fails: no write operation looks at the format of \<^verbatim>\<open>expiry_date\<close>. The
  creation request with \<^verbatim>\<open>expiry_date = "tomorrow"\<close> is answered 200 and the string is
  stored; the update request with the same value is accepted as well. On the stored record
  \<^verbatim>\<open>is_expired\<close> raises \<^verbatim>\<open>ValueError\<close>, and the redirect request ends in a 500 response.
\<close>

theorem C6_malformed_date_counterexample:
  "shorten [''abc123''] bad_date_req empty_state
     = Some (Created ''abc123'', \<lparr> urls = [bad_date_doc], qr_files = [''abc123''] \<rparr>) \<and>
   status (Created ''abc123'') = 200 \<and>
   snd (update_url ''promo'' bad_date_update promo_state)
     = \<lparr> urls = [plain_doc \<lparr> expiry_date := PStr ''tomorrow'' \<rparr>], qr_files = [''promo''] \<rparr> \<and>
   is_expired noon bad_date_doc = Inl ValueError \<and>
   redirect_short_url noon ''abc123'' desktop_get
       \<lparr> urls = [bad_date_doc], qr_files = [''abc123''] \<rparr>
     = (InternalServerError ValueError, \<lparr> urls = [bad_date_doc], qr_files = [''abc123''] \<rparr>)"
proof -
  have upd: "snd (update_url ''promo'' bad_date_update promo_state)
     = \<lparr> urls = [plain_doc \<lparr> expiry_date := PStr ''tomorrow'' \<rparr>], qr_files = [''promo''] \<rparr>"
    by (simp add: update_url_def bad_date_update_def bare_post_def desktop_get_def
        promo_state_def plain_doc_def find_one_def collect_update_fields_def
        max_clicks_field_def country_redirect_field_def plain_field_def no_updates_def
        apply_set_def)
  have exp: "is_expired noon bad_date_doc = Inl ValueError"
    by (simp add: is_expired_def bad_date_doc_def plain_doc_def strptime_tomorrow)
  have red: "redirect_short_url noon ''abc123'' desktop_get
       \<lparr> urls = [bad_date_doc], qr_files = [''abc123''] \<rparr>
     = (InternalServerError ValueError, \<lparr> urls = [bad_date_doc], qr_files = [''abc123''] \<rparr>)"
    using exp
    by (simp add: redirect_short_url_def desktop_get_def find_one_def bad_date_doc_def
        plain_doc_def)
  show ?thesis using shorten_bad_date upd exp red by simp
qed


lemma is_expired_returns_iff:
  "(\<exists>b. is_expired now r = Inr b) \<longleftrightarrow>
   (\<not> truthy (expiry_date r) \<or> (\<exists>s dt. expiry_date r = PStr s \<and> strptime s = Inr dt))"
proof (cases "expiry_date r")
  case PNone
  then show ?thesis by (simp add: is_expired_def)
next
  case (PInt n)
  then show ?thesis by (auto simp: is_expired_def Let_def)
next
  case (PStr s)
  then show ?thesis
    by (cases "strptime s") (auto simp: is_expired_def Let_def)
qed

lemma update_expiry_date_only:
  assumes "req_method req = POST \<or> req_method req = PATCH" and "is_json req"
    and "json req = [(''expiry_date'', PStr s)]" and "s \<noteq> []"
    and "find_one (urls st) (PStr sid) = Some d"
  shows "update_url sid req st
           = (Updated \<lparr> set_password = None, set_expiry_date = Some (PStr s),
                        set_max_clicks = None, set_mobile_url = None,
                        set_desktop_url = None, set_country_redirect = None \<rparr>,
              st\<lparr>urls := update_one (urls st) (PStr sid)
                   (apply_set \<lparr> set_password = None, set_expiry_date = Some (PStr s),
                        set_max_clicks = None, set_mobile_url = None,
                        set_desktop_url = None, set_country_redirect = None \<rparr>)\<rparr>)"
  using assms
  by (auto simp: update_url_def collect_update_fields_def max_clicks_field_def
      country_redirect_field_def plain_field_def no_updates_def)

text \<open>
  C6, amended: the write operations do not check the format of \<^verbatim>\<open>expiry_date\<close>. The
  creation operation and the update operation accept every non-empty string and store it
  as given. \<^verbatim>\<open>is_expired\<close> returns exactly on the records whose \<^verbatim>\<open>expiry_date\<close> is unset
  (or empty) or a string that parses in the format \<^verbatim>\<open>YYYY-MM-DD HH:MM:SS\<close>; on a record
  whose stored \<^verbatim>\<open>expiry_date\<close> is a non-empty string that does not parse, it raises at read
  time.
\<close>

theorem C6_expiry_date_unvalidated:
  "((\<exists>b. is_expired now r = Inr b) \<longleftrightarrow>
      (\<not> truthy (expiry_date r) \<or> (\<exists>s' dt. expiry_date r = PStr s' \<and> strptime s' = Inr dt))) \<and>
   (expiry_date r = PStr s \<and> s \<noteq> [] \<and> strptime s = Inl e \<longrightarrow> is_expired now r = Inl e) \<and>
   ((req_method req = POST \<or> req_method req = PATCH) \<and> is_json req \<and>
    json req = [(''expiry_date'', PStr s)] \<and> s \<noteq> [] \<and>
    find_one (urls st) (PStr sid) = Some d \<longrightarrow>
      status (fst (update_url sid req st)) = 200 \<and>
      find_one (urls (snd (update_url sid req st))) (PStr sid)
        = Some (d\<lparr>expiry_date := PStr s\<rparr>)) \<and>
   (req_method creq = POST \<and> is_json creq \<and>
    json creq = [(''long_url'', PStr u), (''expiry_date'', PStr s)] \<and> u \<noteq> [] \<and> s \<noteq> [] \<and>
    find_one (urls st) (PStr c) = None \<longrightarrow>
      shorten (c # cs) creq st
        = Some (Created c,
                st\<lparr>urls := urls st @
                       [\<lparr> short_id = PStr c, long_url = PStr u, clicks = 0, password = PNone,
                          expiry_date = PStr s, max_clicks = None, mobile_url = PNone,
                          desktop_url = PNone, country_redirect = None \<rparr>],
                   qr_files := c # qr_files st\<rparr>))"
proof (intro conjI impI)
  show "(\<exists>b. is_expired now r = Inr b) \<longleftrightarrow>
      (\<not> truthy (expiry_date r) \<or> (\<exists>s' dt. expiry_date r = PStr s' \<and> strptime s' = Inr dt))"
    by (rule is_expired_returns_iff)
next
  assume "expiry_date r = PStr s \<and> s \<noteq> [] \<and> strptime s = Inl e"
  then show "is_expired now r = Inl e"
    by (simp add: is_expired_def)
next
  assume a: "(req_method req = POST \<or> req_method req = PATCH) \<and> is_json req \<and>
    json req = [(''expiry_date'', PStr s)] \<and> s \<noteq> [] \<and>
    find_one (urls st) (PStr sid) = Some d"
  let ?uf = "\<lparr> set_password = None, set_expiry_date = Some (PStr s),
                set_max_clicks = None, set_mobile_url = None,
                set_desktop_url = None, set_country_redirect = None \<rparr>"
  have upd: "update_url sid req st
      = (Updated ?uf, st\<lparr>urls := update_one (urls st) (PStr sid) (apply_set ?uf)\<rparr>)"
    using a update_expiry_date_only [of req s st sid d] by blast
  show "status (fst (update_url sid req st)) = 200"
    by (simp add: upd)
  have "find_one (update_one (urls st) (PStr sid) (apply_set ?uf)) (PStr sid)
          = Some (apply_set ?uf d)"
    using find_one_update_one [of "apply_set ?uf" "urls st" "PStr sid"] a
    by (simp add: apply_set_keeps)
  moreover have "apply_set ?uf d = d\<lparr>expiry_date := PStr s\<rparr>"
    by (simp add: apply_set_def)
  ultimately show "find_one (urls (snd (update_url sid req st))) (PStr sid)
        = Some (d\<lparr>expiry_date := PStr s\<rparr>)"
    by (simp add: upd)
next
  assume "req_method creq = POST \<and> is_json creq \<and>
    json creq = [(''long_url'', PStr u), (''expiry_date'', PStr s)] \<and> u \<noteq> [] \<and> s \<noteq> [] \<and>
    find_one (urls st) (PStr c) = None"
  then show "shorten (c # cs) creq st
        = Some (Created c,
                st\<lparr>urls := urls st @
                       [\<lparr> short_id = PStr c, long_url = PStr u, clicks = 0, password = PNone,
                          expiry_date = PStr s, max_clicks = None, mobile_url = PNone,
                          desktop_url = PNone, country_redirect = None \<rparr>],
                   qr_files := c # qr_files st\<rparr>)"
    by (simp add: shorten_def request_field_def dict_get_def allocate_def new_entry_def
        py_or_def)
qed

theorem C6_expiry_date_unvalidated_witness:
  "is_expired noon bad_date_doc = Inl ValueError \<and>
   (\<nexists>b. is_expired noon bad_date_doc = Inr b) \<and>
   find_one (urls (snd (update_url ''promo'' bad_date_update promo_state))) (PStr ''promo'')
     = Some (plain_doc \<lparr> expiry_date := PStr ''tomorrow'' \<rparr>) \<and>
   shorten [''abc123''] bad_date_req empty_state
     = Some (Created ''abc123'', \<lparr> urls = [bad_date_doc], qr_files = [''abc123''] \<rparr>)"
proof -
  note inst = C6_expiry_date_unvalidated [of noon bad_date_doc "''tomorrow''" ValueError
      bad_date_update promo_state "''promo''" plain_doc bad_date_req
      "''https://example.com''" "''abc123''" "[]"]
  have a: "is_expired noon bad_date_doc = Inl ValueError"
    using inst [THEN conjunct2, THEN conjunct1] strptime_tomorrow
    by (simp add: bad_date_doc_def plain_doc_def)
  have b: "\<nexists>b. is_expired noon bad_date_doc = Inr b"
    using inst [THEN conjunct1] strptime_tomorrow
    by (simp add: bad_date_doc_def plain_doc_def)
  have c: "find_one (urls (snd (update_url ''promo'' bad_date_update promo_state))) (PStr ''promo'')
     = Some (plain_doc \<lparr> expiry_date := PStr ''tomorrow'' \<rparr>)"
    using inst [THEN conjunct2, THEN conjunct2, THEN conjunct1]
    by (simp add: bad_date_update_def bare_post_def desktop_get_def promo_state_def
        find_one_def plain_doc_def)
  have d: "shorten [''abc123''] bad_date_req empty_state
     = Some (Created ''abc123'', \<lparr> urls = [bad_date_doc], qr_files = [''abc123''] \<rparr>)"
    using C6_expiry_date_unvalidated [of _ _ "''tomorrow''" _ _ empty_state _ _ bad_date_req
        "''https://example.com''" "''abc123''" "[]",
        THEN conjunct2, THEN conjunct2, THEN conjunct2]
    by (simp add: bad_date_req_def bare_post_def desktop_get_def empty_state_def
        find_one_def bad_date_doc_def plain_doc_def)
  show ?thesis using a b c d by simp
qed


section \<open>The update operation\<close>

lemma apply_set_idem: "apply_set uf (apply_set uf d) = apply_set uf d"
  by (simp add: apply_set_def split: option.splits)

lemma update_one_idem:
  assumes "\<And>d. short_id (f d) = short_id d" and "\<And>d. f (f d) = f d"
  shows "update_one (update_one ds sid f) sid f = update_one ds sid f"
  using assms by (induction ds) auto

lemma map_update_one_keeps:
  assumes "\<And>d. g (f d) = g d"
  shows "map g (update_one ds sid f) = map g ds"
  using assms by (induction ds) auto

lemma update_url_cases:
  "update_url sid req st = (fst (update_url sid req st), st) \<and>
   (\<forall>uf. fst (update_url sid req st) \<noteq> Updated uf)
   \<or> (\<exists>uf d. (req_method req = PATCH \<or> req_method req = POST) \<and>
          find_one (urls st) (PStr sid) = Some d \<and> is_json req \<and>
          collect_update_fields (json req) = Inr uf \<and> \<not> no_updates uf \<and>
          update_url sid req st
            = (Updated uf, st\<lparr>urls := update_one (urls st) (PStr sid) (apply_set uf)\<rparr>))"
  by (auto simp: update_url_def split: option.splits sum.splits)

lemma update_url_idem:
  "update_url sid req (snd (update_url sid req st)) = update_url sid req st"
  using update_url_cases [of sid req st]
proof
  assume "update_url sid req st = (fst (update_url sid req st), st) \<and>
          (\<forall>uf. fst (update_url sid req st) \<noteq> Updated uf)"
  then have "snd (update_url sid req st) = st"
    by (metis snd_conv)
  then show ?thesis by simp
next
  assume "\<exists>uf d. (req_method req = PATCH \<or> req_method req = POST) \<and>
          find_one (urls st) (PStr sid) = Some d \<and> is_json req \<and>
          collect_update_fields (json req) = Inr uf \<and> \<not> no_updates uf \<and>
          update_url sid req st
            = (Updated uf, st\<lparr>urls := update_one (urls st) (PStr sid) (apply_set uf)\<rparr>)"
  then obtain uf d where
    m: "req_method req = PATCH \<or> req_method req = POST" and
    d: "find_one (urls st) (PStr sid) = Some d" and
    j: "is_json req" and
    c: "collect_update_fields (json req) = Inr uf" and
    n: "\<not> no_updates uf" and
    u: "update_url sid req st
          = (Updated uf, st\<lparr>urls := update_one (urls st) (PStr sid) (apply_set uf)\<rparr>)"
    by blast
  let ?st' = "st\<lparr>urls := update_one (urls st) (PStr sid) (apply_set uf)\<rparr>"
  have found: "find_one (urls ?st') (PStr sid) = Some (apply_set uf d)"
    using find_one_update_one [of "apply_set uf" "urls st" "PStr sid"] d
    by (simp add: apply_set_keeps)
  have again: "update_one (urls ?st') (PStr sid) (apply_set uf) = urls ?st'"
    using update_one_idem [of "apply_set uf" "urls st" "PStr sid"]
    by (simp add: apply_set_keeps apply_set_idem)
  have "update_url sid req ?st' = (Updated uf, ?st')"
    using m j c n found again by (auto simp: update_url_def)
  with u show ?thesis by simp
qed

lemma no_recognized_field:
  assumes "\<forall>k \<in> set [''password'', ''expiry_date'', ''max_clicks'', ''mobile_url'',
                       ''desktop_url'', ''country_redirect'']. map_of data k = None"
  shows "\<exists>uf. collect_update_fields data = Inr uf \<and> no_updates uf"
  using assms
  by (simp add: collect_update_fields_def max_clicks_field_def country_redirect_field_def
      plain_field_def no_updates_def)

text \<open>
  C7: the update operation is idempotent. Applied a second time with the same payload, it
  gives the same answer and leaves the state as the first application left it. A payload
  with none of the six recognized fields changes nothing: the state, with every click
  counter in it, stays as it was, and for a JSON request to a stored record the answer is
  the 400 message \<^verbatim>\<open>No updates provided\<close>.
\<close>

theorem C7_update_idempotent:
  "snd (update_url sid req (snd (update_url sid req st))) = snd (update_url sid req st) \<and>
   fst (update_url sid req (snd (update_url sid req st))) = fst (update_url sid req st) \<and>
   ((\<forall>k \<in> set [''password'', ''expiry_date'', ''max_clicks'', ''mobile_url'',
                 ''desktop_url'', ''country_redirect'']. map_of (json req) k = None) \<longrightarrow>
      snd (update_url sid req st) = st \<and>
      ((req_method req = PATCH \<or> req_method req = POST) \<and> is_json req \<and>
       find_one (urls st) (PStr sid) \<noteq> None \<longrightarrow>
         fst (update_url sid req st) = MessageJson 400 ''No updates provided''))"
proof (intro conjI impI)
  show "snd (update_url sid req (snd (update_url sid req st))) = snd (update_url sid req st)"
    by (simp add: update_url_idem)
  show "fst (update_url sid req (snd (update_url sid req st))) = fst (update_url sid req st)"
    by (simp add: update_url_idem)
next
  assume "\<forall>k \<in> set [''password'', ''expiry_date'', ''max_clicks'', ''mobile_url'',
                 ''desktop_url'', ''country_redirect'']. map_of (json req) k = None"
  from no_recognized_field [OF this] obtain uf where
    uf: "collect_update_fields (json req) = Inr uf" "no_updates uf"
    by blast
  then show "snd (update_url sid req st) = st"
    by (auto simp: update_url_def split: option.splits)
  assume "(req_method req = PATCH \<or> req_method req = POST) \<and> is_json req \<and>
       find_one (urls st) (PStr sid) \<noteq> None"
  with uf show "fst (update_url sid req st) = MessageJson 400 ''No updates provided''"
    by (auto simp: update_url_def split: option.splits)
qed

lemma update_options:
  "update_url ''promo'' options_update promo_state
     = (Updated \<lparr> set_password = Some (PStr ''secret''), set_expiry_date = None,
                  set_max_clicks = Some (Some 7), set_mobile_url = None,
                  set_desktop_url = None, set_country_redirect = None \<rparr>,
        \<lparr> urls = [plain_doc \<lparr> password := PStr ''secret'', max_clicks := Some 7 \<rparr>],
          qr_files = [''promo''] \<rparr>)"
  by (simp add: update_url_def options_update_def bare_post_def desktop_get_def
      promo_state_def plain_doc_def find_one_def collect_update_fields_def
      max_clicks_field_def country_redirect_field_def plain_field_def no_updates_def
      apply_set_def int_of_str_def is_c_space_def int_unsigned_def digit_of_def)

theorem C7_update_idempotent_witness:
  "snd (update_url ''promo'' options_update
          \<lparr> urls = [plain_doc \<lparr> password := PStr ''secret'', max_clicks := Some 7 \<rparr>],
            qr_files = [''promo''] \<rparr>)
     = \<lparr> urls = [plain_doc \<lparr> password := PStr ''secret'', max_clicks := Some 7 \<rparr>],
         qr_files = [''promo''] \<rparr> \<and>
   update_url ''promo'' new_long_url_req promo_state
     = (MessageJson 400 ''No updates provided'', promo_state)"
proof -
  have a: "snd (update_url ''promo'' options_update
          \<lparr> urls = [plain_doc \<lparr> password := PStr ''secret'', max_clicks := Some 7 \<rparr>],
            qr_files = [''promo''] \<rparr>)
     = \<lparr> urls = [plain_doc \<lparr> password := PStr ''secret'', max_clicks := Some 7 \<rparr>],
         qr_files = [''promo''] \<rparr>"
    using C7_update_idempotent [of "''promo''" options_update promo_state, THEN conjunct1]
    by (simp add: update_options)
  have none: "\<forall>k \<in> set [''password'', ''expiry_date'', ''max_clicks'', ''mobile_url'',
                 ''desktop_url'', ''country_redirect'']. map_of (json new_long_url_req) k = None"
    by (simp add: new_long_url_req_def bare_post_def desktop_get_def)
  have found: "(req_method new_long_url_req = PATCH \<or> req_method new_long_url_req = POST) \<and>
      is_json new_long_url_req \<and> find_one (urls promo_state) (PStr ''promo'') \<noteq> None"
    by (simp add: new_long_url_req_def bare_post_def desktop_get_def promo_state_def
        plain_doc_def find_one_def)
  have b: "update_url ''promo'' new_long_url_req promo_state
     = (MessageJson 400 ''No updates provided'', promo_state)"
    using C7_update_idempotent [of "''promo''" new_long_url_req promo_state,
        THEN conjunct2, THEN conjunct2, THEN mp, OF none] found
    by (metis prod.collapse)
  show ?thesis using a b by simp
qed


lemma update_url_keeps:
  "map long_url (urls (snd (update_url sid req st))) = map long_url (urls st)"
  "map short_id (urls (snd (update_url sid req st))) = map short_id (urls st)"
  "map clicks (urls (snd (update_url sid req st))) = map clicks (urls st)"
  using update_state [of sid req st]
  by (auto simp: map_update_one_keeps apply_set_keeps)

lemma update_url_found_keeps:
  assumes "find_one (urls st) (PStr sid) = Some d"
    and "find_one (urls (snd (update_url sid req st))) (PStr sid) = Some d'"
  shows "long_url d' = long_url d"
  using update_state [of sid req st]
proof
  assume "snd (update_url sid req st) = st"
  with assms show ?thesis by simp
next
  assume "\<exists>uf. snd (update_url sid req st)
            = st\<lparr>urls := update_one (urls st) (PStr sid) (apply_set uf)\<rparr>"
  then obtain uf where
    "snd (update_url sid req st) = st\<lparr>urls := update_one (urls st) (PStr sid) (apply_set uf)\<rparr>"
    by blast
  with assms find_one_update_one [of "apply_set uf" "urls st" "PStr sid"]
  show ?thesis by (auto simp: apply_set_keeps)
qed

text \<open>
  C8 as stated fails: no update payload changes \<^verbatim>\<open>long_url\<close>. The loop of \<^verbatim>\<open>update_url\<close>
  runs over six option fields (line 241) and \<^verbatim>\<open>long_url\<close> is not one of them, so the
  request \<^verbatim>\<open>{"long_url": "https://new.example"}\<close> is answered \<^verbatim>\<open>No updates provided\<close> and the
  record keeps its \<^verbatim>\<open>long_url\<close>; and there is no request, state and record for which the
  stored \<^verbatim>\<open>long_url\<close> after the update differs from the one before.
\<close>

theorem C8_long_url_update_counterexample:
  "map_of (json new_long_url_req) ''long_url'' = Some (PStr ''https://new.example'') \<and>
   update_url ''promo'' new_long_url_req promo_state
     = (MessageJson 400 ''No updates provided'', promo_state) \<and>
   \<not> (\<exists>sid req st d d'.
         map_of (json req) ''long_url'' \<noteq> None \<and>
         find_one (urls st) (PStr sid) = Some d \<and>
         find_one (urls (snd (update_url sid req st))) (PStr sid) = Some d' \<and>
         long_url d' \<noteq> long_url d)"
proof (intro conjI)
  show "map_of (json new_long_url_req) ''long_url'' = Some (PStr ''https://new.example'')"
    by (simp add: new_long_url_req_def bare_post_def desktop_get_def)
  show "update_url ''promo'' new_long_url_req promo_state
     = (MessageJson 400 ''No updates provided'', promo_state)"
    by (simp add: update_url_def new_long_url_req_def bare_post_def desktop_get_def
        promo_state_def plain_doc_def find_one_def collect_update_fields_def
        max_clicks_field_def country_redirect_field_def plain_field_def no_updates_def)
  show "\<not> (\<exists>sid req st d d'.
         map_of (json req) ''long_url'' \<noteq> None \<and>
         find_one (urls st) (PStr sid) = Some d \<and>
         find_one (urls (snd (update_url sid req st))) (PStr sid) = Some d' \<and>
         long_url d' \<noteq> long_url d)"
    using update_url_found_keeps by blast
qed

text \<open>
  C8, amended: \<^verbatim>\<open>long_url\<close> is not mutable via the update operation. For every update
  request, with or without a \<^verbatim>\<open>long_url\<close> field in its payload, every stored record has
  the same \<^verbatim>\<open>long_url\<close> after the update as before, and the same \<^verbatim>\<open>short_id\<close>.
\<close>

theorem C8_update_keeps_long_url:
  "map long_url (urls (snd (update_url sid req st))) = map long_url (urls st) \<and>
   map short_id (urls (snd (update_url sid req st))) = map short_id (urls st)"
  by (simp add: update_url_keeps)

theorem C8_update_keeps_long_url_witness:
  "map long_url (urls (snd (update_url ''promo'' new_long_url_req promo_state)))
     = [PStr ''https://example.com''] \<and>
   map long_url (urls (snd (update_url ''promo'' options_update promo_state)))
     = [PStr ''https://example.com'']"
  using C8_update_keeps_long_url [of "''promo''" new_long_url_req promo_state]
    C8_update_keeps_long_url [of "''promo''" options_update promo_state]
  by (simp add: promo_state_def plain_doc_def)

section \<open>A \<^verbatim>\<open>max_clicks\<close> that is not an integer\<close>

lemma int_of_str_error: "int_of_str s = Inl e \<Longrightarrow> e = ValueError"
  by (auto simp: int_of_str_def split: list.splits if_splits option.splits)

lemma py_int_error: "py_int v = Inl e \<Longrightarrow> v \<noteq> PNone \<Longrightarrow> e = ValueError"
  by (cases v) (auto dest: int_of_str_error)

text \<open>
  C9 as stated fails: the failure is not a 400. \<^verbatim>\<open>int(value)\<close> at line 248 raises
  \<^verbatim>\<open>ValueError\<close>, nothing catches it, and the request ends in a 500 response. The record is
  left unchanged, also where an earlier field of the same payload was valid.
\<close>

theorem C9_bad_max_clicks_counterexample:
  "map_of (json bad_max_clicks_update) ''max_clicks'' = Some (PStr ''abc'') \<and>
   int_of_str ''abc'' = Inl ValueError \<and>
   update_url ''promo'' bad_max_clicks_update promo_state
     = (InternalServerError ValueError, promo_state) \<and>
   status (fst (update_url ''promo'' bad_max_clicks_update promo_state)) = 500 \<and>
   status (fst (update_url ''promo'' bad_max_clicks_update promo_state)) \<noteq> 400"
proof -
  have i: "int_of_str ''abc'' = Inl ValueError"
    by (simp add: int_of_str_def is_c_space_def int_unsigned_def digit_of_def)
  have u: "update_url ''promo'' bad_max_clicks_update promo_state
     = (InternalServerError ValueError, promo_state)"
    by (simp add: update_url_def bad_max_clicks_update_def bare_post_def desktop_get_def
        promo_state_def plain_doc_def find_one_def collect_update_fields_def
        max_clicks_field_def i)
  show ?thesis
    using i u by (simp add: bad_max_clicks_update_def bare_post_def desktop_get_def)
qed

text \<open>
  C9, amended: for every JSON update request to a stored record whose payload carries a
  \<^verbatim>\<open>max_clicks\<close> value that is present, not empty and not null, and that \<^verbatim>\<open>int\<close> does not
  parse, the update operation ends in the unhandled \<^verbatim>\<open>ValueError\<close>, a 500 response, and the
  state is left unchanged.
\<close>

theorem C9_bad_max_clicks_fails:
  "(req_method req = PATCH \<or> req_method req = POST) \<and> is_json req \<and>
   find_one (urls st) (PStr sid) = Some d \<and>
   map_of (json req) ''max_clicks'' = Some v \<and> v \<noteq> PStr [] \<and> v \<noteq> PNone \<and>
   py_int v = Inl e \<longrightarrow>
     update_url sid req st = (InternalServerError ValueError, st) \<and>
     status (fst (update_url sid req st)) = 500"
proof
  assume a: "(req_method req = PATCH \<or> req_method req = POST) \<and> is_json req \<and>
   find_one (urls st) (PStr sid) = Some d \<and>
   map_of (json req) ''max_clicks'' = Some v \<and> v \<noteq> PStr [] \<and> v \<noteq> PNone \<and>
   py_int v = Inl e"
  then have "e = ValueError" using py_int_error by blast
  with a have "max_clicks_field (json req) = Inl ValueError"
    by (simp add: max_clicks_field_def)
  with a have "update_url sid req st = (InternalServerError ValueError, st)"
    by (auto simp: update_url_def collect_update_fields_def)
  then show "update_url sid req st = (InternalServerError ValueError, st) \<and>
     status (fst (update_url sid req st)) = 500"
    by simp
qed

theorem C9_bad_max_clicks_fails_witness:
  "update_url ''promo'' bad_max_clicks_update promo_state
     = (InternalServerError ValueError, promo_state) \<and>
   password (urls promo_state ! 0) = PNone"
proof -
  have i: "py_int (PStr ''abc'') = Inl ValueError"
    by (simp add: int_of_str_def is_c_space_def int_unsigned_def digit_of_def)
  have pre: "(req_method bad_max_clicks_update = PATCH \<or> req_method bad_max_clicks_update = POST) \<and>
      is_json bad_max_clicks_update \<and>
      find_one (urls promo_state) (PStr ''promo'') = Some plain_doc \<and>
      map_of (json bad_max_clicks_update) ''max_clicks'' = Some (PStr ''abc'') \<and>
      PStr ''abc'' \<noteq> PStr [] \<and> PStr ''abc'' \<noteq> PNone \<and>
      py_int (PStr ''abc'') = Inl ValueError"
    using i
    by (simp add: bad_max_clicks_update_def bare_post_def desktop_get_def promo_state_def
        plain_doc_def find_one_def)
  have "update_url ''promo'' bad_max_clicks_update promo_state
     = (InternalServerError ValueError, promo_state)"
    using C9_bad_max_clicks_fails [of bad_max_clicks_update promo_state "''promo''" plain_doc
        "PStr ''abc''" ValueError, THEN mp, OF pre]
    by simp
  then show ?thesis by (simp add: promo_state_def plain_doc_def)
qed


section \<open>Empty optional fields at creation\<close>

lemma find_one_append_new:
  "find_one ds sid = None \<Longrightarrow> short_id e = sid \<Longrightarrow> find_one (ds @ [e]) sid = Some e"
  by (induction ds) (auto simp: find_one_def split: if_splits)

lemma new_entry_fields:
  assumes "new_entry sid req = Inr e"
  shows "password e = py_or (request_field req ''password'') PNone"
    and "expiry_date e = py_or (request_field req ''expiry_date'') PNone"
    and "mobile_url e = py_or (request_field req ''mobile_url'') PNone"
    and "desktop_url e = py_or (request_field req ''desktop_url'') PNone"
    and "\<not> truthy (request_field req ''max_clicks'') \<Longrightarrow> max_clicks e = None"
    and "\<not> truthy (request_field req ''country_redirect'') \<Longrightarrow> country_redirect e = None"
  using assms by (auto simp: new_entry_def split: if_splits sum.splits)

text \<open>
  C10: an optional field that the creation request supplies as the empty string is stored
  as \<^verbatim>\<open>None\<close>, as if it were absent. For a created record: with \<^verbatim>\<open>password = ""\<close> the
  record is not password-protected, the gate allows every request, and the redirect handler
  answers a record that has not expired with the redirect, never with the password prompt;
  with \<^verbatim>\<open>expiry_date = ""\<close> the date check is skipped and \<^verbatim>\<open>is_expired\<close> is the quota check;
  with \<^verbatim>\<open>mobile_url = ""\<close> or \<^verbatim>\<open>desktop_url = ""\<close> the device override for that class is
  never taken; \<^verbatim>\<open>max_clicks = ""\<close> and \<^verbatim>\<open>country_redirect = ""\<close> are stored as \<^verbatim>\<open>None\<close> too.
\<close>

theorem C10_empty_fields_unset:
  "shorten candidates req st = Some (Created s, st') \<longrightarrow>
     (\<exists>e. urls st' = urls st @ [e] \<and> find_one (urls st') (PStr s) = Some e \<and>
        (request_field req ''password'' = PStr [] \<longrightarrow>
           password e = PNone \<and> (\<forall>rq. password_gate e rq = Allow) \<and>
           (\<forall>now rq. req_method rq \<noteq> PATCH \<and> is_expired now e = Inr False \<longrightarrow>
              fst (redirect_short_url now s rq st') = Redirect (target_url e rq))) \<and>
        (request_field req ''expiry_date'' = PStr [] \<longrightarrow>
           expiry_date e = PNone \<and>
           (\<forall>now. is_expired now e
              = Inr (case max_clicks e of None \<Rightarrow> False | Some n \<Rightarrow> n \<noteq> 0 \<and> n \<le> clicks e))) \<and>
        (request_field req ''mobile_url'' = PStr [] \<longrightarrow>
           mobile_url e = PNone \<and>
           (\<forall>rq. device_url e rq
              = (if is_pc (ua rq) \<and> truthy (desktop_url e) then desktop_url e else long_url e))) \<and>
        (request_field req ''desktop_url'' = PStr [] \<longrightarrow>
           desktop_url e = PNone \<and>
           (\<forall>rq. device_url e rq
              = (if is_mobile (ua rq) \<and> truthy (mobile_url e) then mobile_url e else long_url e))) \<and>
        (request_field req ''max_clicks'' = PStr [] \<longrightarrow> max_clicks e = None) \<and>
        (request_field req ''country_redirect'' = PStr [] \<longrightarrow> country_redirect e = None))"
proof
  assume "shorten candidates req st = Some (Created s, st')"
  from shorten_created [OF this] obtain e where
    app: "urls st' = urls st @ [e]" and sid: "short_id e = PStr s" and
    new: "new_entry (PStr s) req = Inr e" and free: "find_one (urls st) (PStr s) = None"
    by blast
  have found: "find_one (urls st') (PStr s) = Some e"
    using find_one_append_new [OF free sid] app by simp
  have pw: "password e = PNone \<and> (\<forall>rq. password_gate e rq = Allow) \<and>
           (\<forall>now rq. req_method rq \<noteq> PATCH \<and> is_expired now e = Inr False \<longrightarrow>
              fst (redirect_short_url now s rq st') = Redirect (target_url e rq))"
    if "request_field req ''password'' = PStr []"
  proof -
    have p: "password e = PNone"
      using new_entry_fields(1) [OF new] that by (simp add: py_or_def)
    then have g: "password_gate e rq = Allow" for rq
      by (simp add: password_gate_def)
    show ?thesis
      using p g found by (auto simp: redirect_short_url_def)
  qed
  have ex: "expiry_date e = PNone \<and>
           (\<forall>now. is_expired now e
              = Inr (case max_clicks e of None \<Rightarrow> False | Some n \<Rightarrow> n \<noteq> 0 \<and> n \<le> clicks e))"
    if "request_field req ''expiry_date'' = PStr []"
    using new_entry_fields(2) [OF new] that by (simp add: py_or_def is_expired_def)
  have mo: "mobile_url e = PNone \<and>
           (\<forall>rq. device_url e rq
              = (if is_pc (ua rq) \<and> truthy (desktop_url e) then desktop_url e else long_url e))"
    if "request_field req ''mobile_url'' = PStr []"
    using new_entry_fields(3) [OF new] that by (simp add: py_or_def device_url_def)
  have de: "desktop_url e = PNone \<and>
           (\<forall>rq. device_url e rq
              = (if is_mobile (ua rq) \<and> truthy (mobile_url e) then mobile_url e else long_url e))"
    if "request_field req ''desktop_url'' = PStr []"
    using new_entry_fields(4) [OF new] that by (simp add: py_or_def device_url_def)
  have mc: "max_clicks e = None" if "request_field req ''max_clicks'' = PStr []"
    using new_entry_fields(5) [OF new] that by simp
  have cr: "country_redirect e = None" if "request_field req ''country_redirect'' = PStr []"
    using new_entry_fields(6) [OF new] that by simp
  show "\<exists>e. urls st' = urls st @ [e] \<and> find_one (urls st') (PStr s) = Some e \<and>
        (request_field req ''password'' = PStr [] \<longrightarrow>
           password e = PNone \<and> (\<forall>rq. password_gate e rq = Allow) \<and>
           (\<forall>now rq. req_method rq \<noteq> PATCH \<and> is_expired now e = Inr False \<longrightarrow>
              fst (redirect_short_url now s rq st') = Redirect (target_url e rq))) \<and>
        (request_field req ''expiry_date'' = PStr [] \<longrightarrow>
           expiry_date e = PNone \<and>
           (\<forall>now. is_expired now e
              = Inr (case max_clicks e of None \<Rightarrow> False | Some n \<Rightarrow> n \<noteq> 0 \<and> n \<le> clicks e))) \<and>
        (request_field req ''mobile_url'' = PStr [] \<longrightarrow>
           mobile_url e = PNone \<and>
           (\<forall>rq. device_url e rq
              = (if is_pc (ua rq) \<and> truthy (desktop_url e) then desktop_url e else long_url e))) \<and>
        (request_field req ''desktop_url'' = PStr [] \<longrightarrow>
           desktop_url e = PNone \<and>
           (\<forall>rq. device_url e rq
              = (if is_mobile (ua rq) \<and> truthy (mobile_url e) then mobile_url e else long_url e))) \<and>
        (request_field req ''max_clicks'' = PStr [] \<longrightarrow> max_clicks e = None) \<and>
        (request_field req ''country_redirect'' = PStr [] \<longrightarrow> country_redirect e = None)"
    using app found pw ex mo de mc cr by blast
qed

lemma shorten_blank_form:
  "shorten [''abc123''] blank_form_req empty_state
     = Some (Created ''abc123'',
             \<lparr> urls = [plain_doc \<lparr> short_id := PStr ''abc123'' \<rparr>], qr_files = [''abc123''] \<rparr>)"
  by (simp add: shorten_def blank_form_req_def bare_post_def desktop_get_def empty_state_def
      request_field_def form_get_def allocate_def find_one_def new_entry_def py_or_def
      plain_doc_def)

theorem C10_empty_fields_unset_witness:
  "request_field blank_form_req ''password'' = PStr [] \<and>
   shorten [''abc123''] blank_form_req empty_state
     = Some (Created ''abc123'',
             \<lparr> urls = [plain_doc \<lparr> short_id := PStr ''abc123'' \<rparr>], qr_files = [''abc123''] \<rparr>) \<and>
   password (plain_doc \<lparr> short_id := PStr ''abc123'' \<rparr>) = PNone \<and>
   fst (redirect_short_url noon ''abc123'' desktop_get
          \<lparr> urls = [plain_doc \<lparr> short_id := PStr ''abc123'' \<rparr>], qr_files = [''abc123''] \<rparr>)
     = Redirect (PStr ''https://example.com'')"
proof -
  let ?doc = "plain_doc \<lparr> short_id := PStr ''abc123'' \<rparr>"
  let ?st' = "\<lparr> urls = [?doc], qr_files = [''abc123''] \<rparr>"
  have blank: "request_field blank_form_req ''password'' = PStr []"
    by (simp add: blank_form_req_def bare_post_def desktop_get_def request_field_def
        form_get_def)
  from C10_empty_fields_unset [of "[''abc123'']" blank_form_req empty_state "''abc123''" ?st',
      THEN mp, OF shorten_blank_form]
  obtain e where
    e: "urls ?st' = urls empty_state @ [e]" and
    pw: "request_field blank_form_req ''password'' = PStr [] \<longrightarrow>
           password e = PNone \<and> (\<forall>rq. password_gate e rq = Allow) \<and>
           (\<forall>now rq. req_method rq \<noteq> PATCH \<and> is_expired now e = Inr False \<longrightarrow>
              fst (redirect_short_url now ''abc123'' rq ?st') = Redirect (target_url e rq))"
    by blast
  have doc: "e = ?doc"
    using e by (simp add: empty_state_def)
  have live: "req_method desktop_get \<noteq> PATCH \<and> is_expired noon ?doc = Inr False"
    by (simp add: desktop_get_def is_expired_def plain_doc_def)
  have target: "target_url ?doc desktop_get = PStr ''https://example.com''"
    by (simp add: target_url_def device_url_def get_country_redirect_def plain_doc_def
        desktop_get_def)
  have a: "password ?doc = PNone"
    using pw blank doc by simp
  have b: "fst (redirect_short_url noon ''abc123'' desktop_get ?st')
     = Redirect (PStr ''https://example.com'')"
    using pw blank doc live target by simp
  show ?thesis using blank shorten_blank_form a b by simp
qed

end
